theory Spec2Isabelle
  imports Main "HOL-Library.Sublist"
begin

section \<open>The delete command of minikube (cmd/minikube/cmd/delete.go)\<close>

text \<open>
  The file under verification drives the teardown of the local cluster profiles.  It is
  almost entirely effectful: it calls the operating system (files, processes), a number of
  collaborators of the same repository that live in other packages, and it may terminate
  the process.  The embedding makes all of that explicit:
  \<^item> the world is a record holding the file system, the process table, an opaque state
    of the collaborators and the trace of the effectful calls made by this file;
  \<^item> every collaborator is a field of an environment record: a function on the world
    returning the Go result; the code under verification is parametric in it;
  \<^item> process termination is a constructor of the result type.
  Calls to the logger (glog) are left out: they have no influence on control flow.
\<close>

subsection \<open>Errors\<close>

datatype fmtarg = AInt int | AStr string

text \<open>A message is a literal, or the format and arguments of a call to fmt.Sprintf.\<close>

datatype msg = Lit string | Sprintf string "fmtarg list"

text \<open>
  Go error values, as far as the code tells them apart: errors for which os.IsNotExist
  holds, the libmachine error mcnerror.ErrHostDoesNotExist, any other error, and an error
  wrapped by errors.Wrap of github.com/pkg/errors.
\<close>

datatype error =
    ErrNotExist
  | ErrHostDoesNotExist string
  | ErrOther string
  | Wrap error msg

text \<open>os.IsNotExist does not look through errors.Wrap; nil is not a not-exist error.\<close>

fun IsNotExist :: "error option \<Rightarrow> bool" where
  "IsNotExist (Some ErrNotExist) = True"
| "IsNotExist _ = False"

text \<open>errors.Cause strips every layer added by errors.Wrap.\<close>

fun Cause :: "error \<Rightarrow> error" where
  "Cause (Wrap e m) = Cause e"
| "Cause e = e"

subsection \<open>Data of the collaborators\<close>

record KubernetesConfig =
  KubernetesVersion :: string

record MachineConfig =
  VMDriver :: string

record Config =
  MachineConfig :: MachineConfig
  KubernetesConfig :: KubernetesConfig

record Profile =
  Name :: string

datatype API = API nat

datatype Bootstrapper = Bootstrapper nat

subsection \<open>File system, processes, trace\<close>

text \<open>
  A path is absolute and clean: the list of its components below the root.
  filepath.Join joins its elements with the separator and cleans the result
  (filepath.Clean): an empty component and a dot are dropped, and dot-dot drops the
  component before it (at the root there is none, and dot-dot itself is dropped).  An
  element may hold separators.  The separator is the slash.
\<close>

type_synonym path = "string list"

fun split_sep :: "string \<Rightarrow> string \<Rightarrow> string list" where
  "split_sep acc [] = [acc]"
| "split_sep acc (c # cs) =
     (if c = CHR ''/'' then acc # split_sep [] cs else split_sep (acc @ [c]) cs)"

definition clean_step :: "path \<Rightarrow> string \<Rightarrow> path" where
  "clean_step p c =
     (if c = [] \<or> c = ''.'' then p else if c = ''..'' then butlast p else p @ [c])"

definition filepath_Join :: "path \<Rightarrow> string list \<Rightarrow> path" where
  "filepath_Join base elems = foldl clean_step base (concat (map (split_sep []) elems))"

datatype node = File string | Dir

datatype oscall =
    Stat path
  | ReadFile path
  | Remove path
  | RemoveAll path
  | PsFindProcess int
  | OsFindProcess int
  | Kill int

datatype style =
    Embarrassed | Notice | Crushed | Sad | FailureType | Meh | Resetting | Empty
  | DeletingHost | Usage

datatype val = VStr string | VErr error | VPath path

text \<open>
  The trace records, in order, every call of this file that changes something or prints
  something.  Calls that only read (os.Stat, ioutil.ReadFile, the process lookups,
  ListProfiles, Load, GetMachineName) are not recorded.
\<close>

datatype event =
    EvOut style string "(string \<times> val) list"
  | EvErrOut style string "(string \<times> val) list"
  | EvExitWithError string error
  | EvSet string string
  | EvUnset string
  | EvNewAPIClient
  | EvClose API
  | EvGetClusterBootstrapper API string
  | EvDeleteCluster Bootstrapper KubernetesConfig
  | EvDeleteHost API
  | EvDeleteProfile string
  | EvDeleteContext string string
  | EvRemove path
  | EvRemoveAll path
  | EvKill int

record 'x world =
  fs :: "path \<rightharpoonup> node"
  procs :: "int \<rightharpoonup> string"
  ext :: 'x
  trace :: "event list"

text \<open>
  The result of a procedure that may terminate the process: the exit status and the world
  at that moment, or the returned value and the world.
\<close>

datatype ('a, 'x) outcome = Exited int "'x world" | Done 'a "'x world"

fun world_of :: "('a, 'x) outcome \<Rightarrow> 'x world" where
  "world_of (Exited c w) = w"
| "world_of (Done a w) = w"

text \<open>The exit status of the process, when the procedure terminated it.\<close>

fun exit_status :: "('a, 'x) outcome \<Rightarrow> int option" where
  "exit_status (Exited c w) = Some c"
| "exit_status (Done a w) = None"

subsection \<open>The environment: flags, constants and collaborators\<close>

text \<open>
  The flags are what viper.GetBool and viper.GetString return.  The constants of the
  packages constants, localpath and config are fields, and so are the collaborators, since
  their code is not part of this file.  \<open>os_fault\<close> says which calls of the operating system
  fail for a reason that the file system and the process table of the model do not show
  (permissions, input/output errors), and with which message.  \<open>partial_removal p q\<close> says
  whether a failing os.RemoveAll of \<open>p\<close> had removed \<open>q\<close> before it gave up.
\<close>

record 'x env =
  purge_flag :: bool
  forcedelete_flag :: bool
  bootstrapper_name :: string
  MiniPath :: path
  MountProcessFileName :: string
  DriverNone :: string
  KubeconfigPath :: string
  MachineProfile :: string
  ListProfiles :: "'x world \<Rightarrow> Profile list \<times> error option"
  cmdcfg_Set :: "string \<Rightarrow> string \<Rightarrow> 'x world \<Rightarrow> error option \<times> 'x world"
  cmdcfg_Unset :: "string \<Rightarrow> 'x world \<Rightarrow> error option \<times> 'x world"
  NewAPIClient :: "'x world \<Rightarrow> (error + API) \<times> 'x world"
  api_Close :: "API \<Rightarrow> 'x world \<Rightarrow> unit \<times> 'x world"
  Load :: "'x world \<Rightarrow> error + Config"
  getClusterBootstrapper :: "API \<Rightarrow> string \<Rightarrow> 'x world \<Rightarrow> (error + Bootstrapper) \<times> 'x world"
  DeleteCluster :: "Bootstrapper \<Rightarrow> KubernetesConfig \<Rightarrow> 'x world \<Rightarrow> error option \<times> 'x world"
  DeleteHost :: "API \<Rightarrow> 'x world \<Rightarrow> error option \<times> 'x world"
  DeleteProfile :: "string \<Rightarrow> 'x world \<Rightarrow> error option \<times> 'x world"
  GetMachineName :: "'x world \<Rightarrow> string"
  DeleteContext :: "string \<Rightarrow> string \<Rightarrow> 'x world \<Rightarrow> error option \<times> 'x world"
  os_fault :: "oscall \<Rightarrow> string option"
  partial_removal :: "path \<Rightarrow> path \<Rightarrow> bool"

text \<open>
  A collaborator sees the world without the trace and cannot write to it: the call is
  recorded by the caller.  A collaborator that only reads is a \<open>query\<close>.
\<close>

definition collab :: "event \<Rightarrow> ('x world \<Rightarrow> 'r \<times> 'x world) \<Rightarrow> 'x world \<Rightarrow> 'r \<times> 'x world" where
  "collab ev f w = (case f (w\<lparr>trace := []\<rparr>) of (r, w') \<Rightarrow> (r, w'\<lparr>trace := trace w @ [ev]\<rparr>))"

definition query :: "('x world \<Rightarrow> 'r) \<Rightarrow> 'x world \<Rightarrow> 'r" where
  "query f w = f (w\<lparr>trace := []\<rparr>)"

subsection \<open>Output and termination\<close>

definition out_T :: "style \<Rightarrow> string \<Rightarrow> (string \<times> val) list \<Rightarrow> 'x world \<Rightarrow> 'x world" where
  "out_T st fmt v w = w\<lparr>trace := trace w @ [EvOut st fmt v]\<rparr>"

definition out_ErrT :: "style \<Rightarrow> string \<Rightarrow> (string \<times> val) list \<Rightarrow> 'x world \<Rightarrow> 'x world" where
  "out_ErrT st fmt v w = w\<lparr>trace := trace w @ [EvErrOut st fmt v]\<rparr>"

text \<open>os.Exit(code).\<close>

definition os_Exit :: "int \<Rightarrow> 'x world \<Rightarrow> ('a, 'x) outcome" where
  "os_Exit code w = Exited code w"

text \<open>
  Modelled from the spec: exit.WithError of package exit, which is not part of this file.
  The spec says of every call of it that the process terminates immediately with a nonzero
  status; it names no number, and 1 stands for it here.  The call is recorded.
\<close>

definition exit_WithError :: "string \<Rightarrow> error \<Rightarrow> 'x world \<Rightarrow> ('a, 'x) outcome" where
  "exit_WithError m e w = os_Exit 1 (w\<lparr>trace := trace w @ [EvExitWithError m e]\<rparr>)"

text \<open>
  Modelled from the spec: exit.UsageT of package exit, which is not part of this file.
  The spec: immediate termination, usage message, nonzero status.
\<close>

definition exit_UsageT :: "string \<Rightarrow> 'x world \<Rightarrow> ('a, 'x) outcome" where
  "exit_UsageT m w = os_Exit 1 (out_ErrT Usage m [] w)"

subsection \<open>The operating system\<close>

definition fault :: "'x env \<Rightarrow> oscall \<Rightarrow> error option" where
  "fault env c = map_option ErrOther (os_fault env c)"

text \<open>
  A path that is absent is reported as not existing, unless a regular file stands where
  one of its directories should be: then the error is ENOTDIR, which os.IsNotExist does
  not accept.
\<close>

fun file_above :: "(path \<rightharpoonup> node) \<Rightarrow> path \<Rightarrow> path \<Rightarrow> bool" where
  "file_above f acc [] = False"
| "file_above f acc (c # cs) =
     (case f acc of Some (File x) \<Rightarrow> True | _ \<Rightarrow> file_above f (acc @ [c]) cs)"

definition absent_error :: "(path \<rightharpoonup> node) \<Rightarrow> path \<Rightarrow> error" where
  "absent_error f p = (if file_above f [] p then ErrOther ''not a directory'' else ErrNotExist)"

text \<open>os.Stat: the error only.\<close>

definition os_Stat :: "'x env \<Rightarrow> path \<Rightarrow> 'x world \<Rightarrow> error option" where
  "os_Stat env p w =
     (case fault env (Stat p) of
        Some e \<Rightarrow> Some e
      | None \<Rightarrow> (case fs w p of None \<Rightarrow> Some (absent_error (fs w) p) | Some n \<Rightarrow> None))"

text \<open>ioutil.ReadFile.\<close>

definition ioutil_ReadFile :: "'x env \<Rightarrow> path \<Rightarrow> 'x world \<Rightarrow> error + string" where
  "ioutil_ReadFile env p w =
     (case fault env (ReadFile p) of
        Some e \<Rightarrow> Inl e
      | None \<Rightarrow>
         (case fs w p of
            None \<Rightarrow> Inl (absent_error (fs w) p)
          | Some Dir \<Rightarrow> Inl (ErrOther ''is a directory'')
          | Some (File c) \<Rightarrow> Inr c))"

text \<open>os.Remove: removes a file or an empty directory.  The attempt is recorded.\<close>

definition os_Remove :: "'x env \<Rightarrow> path \<Rightarrow> 'x world \<Rightarrow> error option \<times> 'x world" where
  "os_Remove env p w =
     (let w1 = w\<lparr>trace := trace w @ [EvRemove p]\<rparr> in
      case fault env (Remove p) of
        Some e \<Rightarrow> (Some e, w1)
      | None \<Rightarrow>
         (case fs w p of
            None \<Rightarrow> (Some (absent_error (fs w) p), w1)
          | Some (File c) \<Rightarrow> (None, w1\<lparr>fs := (fs w)(p := None)\<rparr>)
          | Some Dir \<Rightarrow>
              if \<exists>q. strict_prefix p q \<and> fs w q \<noteq> None
              then (Some (ErrOther ''directory not empty''), w1)
              else (None, w1\<lparr>fs := (fs w)(p := None)\<rparr>)))"

text \<open>
  os.RemoveAll: removes the path and everything below it; an absent path is no error,
  unless a regular file stands in its way.  A call that fails has removed what it could
  before: which of the paths below are gone is for the environment to say; nothing
  outside the tree is touched.  The attempt is recorded.
\<close>

definition os_RemoveAll :: "'x env \<Rightarrow> path \<Rightarrow> 'x world \<Rightarrow> error option \<times> 'x world" where
  "os_RemoveAll env p w =
     (let w1 = w\<lparr>trace := trace w @ [EvRemoveAll p]\<rparr> in
      case fault env (RemoveAll p) of
        Some e \<Rightarrow>
          (Some e,
           w1\<lparr>fs := (\<lambda>q. if prefix p q \<and> partial_removal env p q then None else fs w q)\<rparr>)
      | None \<Rightarrow>
          if fs w p = None \<and> file_above (fs w) [] p
          then (Some (ErrOther ''not a directory''), w1)
          else (None, w1\<lparr>fs := (\<lambda>q. if prefix p q then None else fs w q)\<rparr>))"

text \<open>ps.FindProcess of go-ps: the executable of the live process, nil when there is none.\<close>

definition ps_FindProcess :: "'x env \<Rightarrow> int \<Rightarrow> 'x world \<Rightarrow> error + string option" where
  "ps_FindProcess env pid w =
     (case fault env (PsFindProcess pid) of Some e \<Rightarrow> Inl e | None \<Rightarrow> Inr (procs w pid))"

text \<open>os.FindProcess: a handle for the pid; it does not look at the process table.\<close>

definition os_FindProcess :: "'x env \<Rightarrow> int \<Rightarrow> error + int" where
  "os_FindProcess env pid =
     (case fault env (OsFindProcess pid) of Some e \<Rightarrow> Inl e | None \<Rightarrow> Inr pid)"

text \<open>
  Process.Kill: the signal is recorded; when it is delivered the process leaves the table.
\<close>

definition proc_Kill :: "'x env \<Rightarrow> int \<Rightarrow> 'x world \<Rightarrow> error option \<times> 'x world" where
  "proc_Kill env pid w =
     (let w1 = w\<lparr>trace := trace w @ [EvKill pid]\<rparr> in
      case fault env (Kill pid) of
        Some e \<Rightarrow> (Some e, w1)
      | None \<Rightarrow> (None, w1\<lparr>procs := (procs w)(pid := None)\<rparr>))"

subsection \<open>strconv.Atoi\<close>

definition digit_val :: "char \<Rightarrow> nat option" where
  "digit_val c = map_of (zip ''0123456789'' [0, 1, 2, 3, 4, 5, 6, 7, 8, 9]) c"

text \<open>
  The digits are read from the left; a character that is no digit is a syntax error, a
  value beyond 64 unsigned bits a range error, whichever comes first.
\<close>

fun ParseUint :: "string \<Rightarrow> nat \<Rightarrow> error + nat" where
  "ParseUint [] n = Inr n"
| "ParseUint (c # cs) n =
     (case digit_val c of
        None \<Rightarrow> Inl (ErrOther ''invalid syntax'')
      | Some d \<Rightarrow>
          if n * 10 + d > 2 ^ 64 - 1 then Inl (ErrOther ''value out of range'')
          else ParseUint cs (n * 10 + d))"

text \<open>
  An optional sign and at least one decimal digit, nothing else (no blanks, no newline);
  the value has to fit the 64-bit int.
\<close>

definition strconv_Atoi :: "string \<Rightarrow> error + int" where
  "strconv_Atoi s =
     (case s of
        [] \<Rightarrow> Inl (ErrOther ''invalid syntax'')
      | c # cs \<Rightarrow>
         (let neg = (c = CHR ''-'');
              ds = (if c = CHR ''-'' \<or> c = CHR ''+'' then cs else s)
          in if ds = [] then Inl (ErrOther ''invalid syntax'')
             else
               (case ParseUint ds 0 of
                  Inl e \<Rightarrow> Inl e
                | Inr un \<Rightarrow>
                    if \<not> neg \<and> un \<ge> 2 ^ 63 then Inl (ErrOther ''value out of range'')
                    else if neg \<and> un > 2 ^ 63 then Inl (ErrOther ''value out of range'')
                    else Inr (if neg then - int un else int un))))"

subsection \<open>killMountProcess (lines 194--240)\<close>

definition pidPath :: "'x env \<Rightarrow> path" where
  "pidPath env = filepath_Join (MiniPath env) [MountProcessFileName env]"

definition killMountProcess :: "'x env \<Rightarrow> 'x world \<Rightarrow> error option \<times> 'x world" where
  "killMountProcess env w =
     (if IsNotExist (os_Stat env (pidPath env) w) then (None, w)
      else
        (case ioutil_ReadFile env (pidPath env) w of
           Inl e \<Rightarrow> (Some (Wrap e (Lit ''ReadFile'')), w)
         | Inr out \<Rightarrow>
            (case strconv_Atoi out of
               Inl e \<Rightarrow> (Some (Wrap e (Lit ''error parsing pid'')), w)
             | Inr pid \<Rightarrow>
                (case ps_FindProcess env pid w of
                   Inl e \<Rightarrow> (Some (Wrap e (Lit ''ps.FindProcess'')), w)
                 | Inr None \<Rightarrow>
                    (case os_Remove env (pidPath env) w of
                       (Some e, w1) \<Rightarrow> (Some (Wrap e (Lit ''Removing stale pid'')), w1)
                     | (None, w1) \<Rightarrow> (None, w1))
                 | Inr (Some exe) \<Rightarrow>
                    (case os_FindProcess env pid of
                       Inl e \<Rightarrow> (Some (Wrap e (Lit ''os.FindProcess'')), w)
                     | Inr proc \<Rightarrow>
                        (case proc_Kill env proc w of
                           (Some e, w1) \<Rightarrow>
                             (case os_Remove env (pidPath env) w1 of
                                (Some e2, w2) \<Rightarrow>
                                  (Some (Wrap e2 (Lit ''Removing likely stale unkillable pid'')), w2)
                              | (None, w2) \<Rightarrow>
                                  (Some (Wrap e (Sprintf ''Kill(%d/%s)'' [AInt pid, AStr exe])), w2))
                         | (None, w1) \<Rightarrow> (None, w1)))))))"

subsection \<open>uninstallKubernetes (lines 164--172)\<close>

definition uninstallKubernetes ::
  "'x env \<Rightarrow> API \<Rightarrow> KubernetesConfig \<Rightarrow> string \<Rightarrow> 'x world \<Rightarrow> 'x world" where
  "uninstallKubernetes env api kc bsName w =
     (let w1 = out_T Resetting
                 ''Uninstalling Kubernetes {{.kubernetes_version}} using {{.bootstrapper_name}} ...''
                 [(''kubernetes_version'', VStr (KubernetesVersion kc)),
                  (''bootstrapper_name'', VStr bsName)] w
      in case collab (EvGetClusterBootstrapper api bsName)
                (getClusterBootstrapper env api bsName) w1 of
           (Inl e, w2) \<Rightarrow>
             out_ErrT Empty ''Unable to get bootstrapper: {{.error}}'' [(''error'', VErr e)] w2
         | (Inr clusterBootstrapper, w2) \<Rightarrow>
             (case collab (EvDeleteCluster clusterBootstrapper kc)
                     (DeleteCluster env clusterBootstrapper kc) w2 of
                (Some e, w3) \<Rightarrow>
                  out_ErrT Empty ''Failed to delete cluster: {{.error}}'' [(''error'', VErr e)] w3
              | (None, w3) \<Rightarrow> w3))"

subsection \<open>deleteProfileDirectory (lines 174--192)\<close>

text \<open>
  The source runs the same block on the machine directory (lines 176--182) and on the
  profile directory (lines 185--191), with the same message for a failure.
\<close>

definition removeDirectory :: "'x env \<Rightarrow> path \<Rightarrow> 'x world \<Rightarrow> (unit, 'x) outcome" where
  "removeDirectory env dir w =
     (if os_Stat env dir w = None then
        (case os_RemoveAll env dir
                (out_T DeletingHost ''Removing {{.directory}} ...'' [(''directory'', VPath dir)] w) of
           (Some e, w1) \<Rightarrow> exit_WithError ''Unable to remove machine directory: %v'' e w1
         | (None, w1) \<Rightarrow> Done () w1)
      else Done () w)"

definition machineDir :: "'x env \<Rightarrow> string \<Rightarrow> path" where
  "machineDir env profile = filepath_Join (MiniPath env) [''machines'', profile]"

definition profileDir :: "'x env \<Rightarrow> string \<Rightarrow> path" where
  "profileDir env profile = filepath_Join (MiniPath env) [''profiles'', profile]"

definition deleteProfileDirectory :: "'x env \<Rightarrow> string \<Rightarrow> 'x world \<Rightarrow> (unit, 'x) outcome" where
  "deleteProfileDirectory env profile w =
     (case removeDirectory env (machineDir env profile) w of
        Exited c w1 \<Rightarrow> Exited c w1
      | Done u w1 \<Rightarrow> removeDirectory env (profileDir env profile) w1)"

subsection \<open>deleteProfile (lines 104--162)\<close>

text \<open>Lines 118--121: the configuration is loaded; a failure other than not-exist is printed.\<close>

definition loadConfig :: "'x env \<Rightarrow> string \<Rightarrow> 'x world \<Rightarrow> (error + Config) \<times> 'x world" where
  "loadConfig env profile w =
     (case query (Load env) w of
        Inl e \<Rightarrow>
          (Inl e,
           if \<not> IsNotExist (Some e)
           then out_ErrT Sad ''Error loading profile {{.name}}: {{.error}}''
                  [(''name'', VStr profile), (''error'', VErr e)] w
           else w)
      | Inr cc \<Rightarrow> (Inr cc, w))"

text \<open>Lines 123--126.\<close>

definition uninstallIfNone :: "'x env \<Rightarrow> API \<Rightarrow> error + Config \<Rightarrow> 'x world \<Rightarrow> 'x world" where
  "uninstallIfNone env api lr w =
     (case lr of
        Inl e \<Rightarrow> w
      | Inr cc \<Rightarrow>
          if VMDriver (MachineConfig cc) = DriverNone env
          then uninstallKubernetes env api (KubernetesConfig cc) (bootstrapper_name env) w
          else w)"

text \<open>Lines 128--130.\<close>

definition reapMountProcess :: "'x env \<Rightarrow> 'x world \<Rightarrow> 'x world" where
  "reapMountProcess env w =
     (case killMountProcess env w of
        (Some e, w1) \<Rightarrow>
          out_T FailureType ''Failed to kill mount process: {{.error}}'' [(''error'', VErr e)] w1
      | (None, w1) \<Rightarrow> w1)"

text \<open>Lines 132--140.\<close>

definition deleteHost :: "'x env \<Rightarrow> string \<Rightarrow> API \<Rightarrow> 'x world \<Rightarrow> 'x world" where
  \<open>deleteHost env profile api w =
     (case collab (EvDeleteHost api) (DeleteHost env api) w of
        (None, w1) \<Rightarrow> w1
      | (Some e, w1) \<Rightarrow>
         (case Cause e of
            ErrHostDoesNotExist n \<Rightarrow>
              out_T Meh ''"{{.name}}" cluster does not exist. Proceeding ahead with cleanup.''
                [(''name'', VStr profile)] w1
          | _ \<Rightarrow>
              out_T Notice
                ''You may need to manually remove the "{{.name}}" VM from your hypervisor''
                [(''name'', VStr profile)]
                (out_T FailureType ''Failed to delete cluster: {{.error}}''
                   [(''error'', VErr e)] w1)))\<close>

text \<open>
  Lines 105--143: the active profile is set, the client of the machine API is acquired,
  and the steps that never terminate the process follow; the removal of the directories
  may terminate it.  The result is the client.
\<close>

definition deleteProfile_teardown :: "'x env \<Rightarrow> string \<Rightarrow> 'x world \<Rightarrow> (API, 'x) outcome" where
  "deleteProfile_teardown env profile w =
     (case collab (EvSet (MachineProfile env) profile)
             (cmdcfg_Set env (MachineProfile env) profile) w of
        (Some e, w1) \<Rightarrow> exit_WithError ''Setting profile failed'' e w1
      | (None, w1) \<Rightarrow>
         (case collab EvNewAPIClient (NewAPIClient env) w1 of
            (Inl e, w2) \<Rightarrow> exit_WithError ''Error getting client'' e w2
          | (Inr api, w2) \<Rightarrow>
             (case loadConfig env profile w2 of
                (lr, w3) \<Rightarrow>
                  (case deleteProfileDirectory env profile
                          (deleteHost env profile api
                             (reapMountProcess env (uninstallIfNone env api lr w3))) of
                     Exited c w4 \<Rightarrow> Exited c w4
                   | Done u w4 \<Rightarrow> Done api w4))))"

text \<open>
  Lines 145--161, and the deferred api.Close of line 116, which runs when the function
  returns and not when the process exits.
\<close>

definition deleteProfile_unregister ::
  "'x env \<Rightarrow> string \<Rightarrow> API \<Rightarrow> 'x world \<Rightarrow> (unit, 'x) outcome" where
  \<open>deleteProfile_unregister env profile api w =
     (case collab (EvDeleteProfile profile) (DeleteProfile env profile) w of
        (Some e, w1) \<Rightarrow>
          if IsNotExist (Some e)
          then os_Exit 0 (out_T Meh ''"{{.name}}" profile does not exist''
                            [(''name'', VStr profile)] w1)
          else exit_WithError ''Failed to remove profile'' e w1
      | (None, w1) \<Rightarrow>
         (let w2 = out_T Crushed ''The "{{.name}}" cluster has been deleted.''
                     [(''name'', VStr profile)] w1;
              machineName = query (GetMachineName env) w2
          in case collab (EvDeleteContext (KubeconfigPath env) machineName)
                    (DeleteContext env (KubeconfigPath env) machineName) w2 of
               (Some e, w3) \<Rightarrow> exit_WithError ''update config'' e w3
             | (None, w3) \<Rightarrow>
                (case collab (EvUnset (MachineProfile env))
                        (cmdcfg_Unset env (MachineProfile env)) w3 of
                   (Some e, w4) \<Rightarrow> exit_WithError ''unset minikube profile'' e w4
                 | (None, w4) \<Rightarrow>
                     Done () (snd (collab (EvClose api) (api_Close env api) w4)))))\<close>

definition deleteProfile :: "'x env \<Rightarrow> string \<Rightarrow> 'x world \<Rightarrow> (unit, 'x) outcome" where
  "deleteProfile env profile w =
     (case deleteProfile_teardown env profile w of
        Exited c w1 \<Rightarrow> Exited c w1
      | Done api w1 \<Rightarrow> deleteProfile_unregister env profile api w1)"

subsection \<open>runDelete (lines 67--102)\<close>

text \<open>Lines 81--83: one line of output for each profile.\<close>

fun printProfiles :: "Profile list \<Rightarrow> 'x world \<Rightarrow> 'x world" where
  "printProfiles [] w = w"
| "printProfiles (p # ps) w =
     printProfiles ps
       (out_T Notice ''    - {{.profileName}}'' [(''profileName'', VStr (Name p))] w)"

text \<open>Lines 90--92: the loop ends with the process when a teardown terminates it.\<close>

fun deleteProfiles :: "'x env \<Rightarrow> Profile list \<Rightarrow> 'x world \<Rightarrow> (unit, 'x) outcome" where
  "deleteProfiles env [] w = Done () w"
| "deleteProfiles env (p # ps) w =
     (case deleteProfile env (Name p) w of
        Exited c w1 \<Rightarrow> Exited c w1
      | Done u w1 \<Rightarrow> deleteProfiles env ps w1)"

text \<open>The condition of line 79.\<close>

definition guard :: "'x env \<Rightarrow> Profile list \<Rightarrow> error option \<Rightarrow> bool" where
  "guard env validProfiles err \<longleftrightarrow>
     err = None \<and> purge_flag env \<and> length validProfiles > 1 \<and> \<not> forcedelete_flag env"

text \<open>Lines 95--101.\<close>

definition purgeStep :: "'x env \<Rightarrow> 'x world \<Rightarrow> (unit, 'x) outcome" where
  "purgeStep env w =
     (if purge_flag env then
        (case os_RemoveAll env (MiniPath env) w of
           (Some e, w1) \<Rightarrow> exit_WithError ''unable to delete minikube config folder'' e w1
         | (None, w1) \<Rightarrow>
             Done () (out_T Crushed
                        ''Successfully purged minikube directory located at - [{{.minikubeDirectory}}]''
                        [(''minikubeDirectory'', VPath (MiniPath env))] w1))
      else Done () w)"

definition runDelete :: "'x env \<Rightarrow> string list \<Rightarrow> 'x world \<Rightarrow> (unit, 'x) outcome" where
  "runDelete env args w =
     (if length args > 0 then exit_UsageT ''Usage: minikube delete'' w
      else
        (case query (ListProfiles env) w of
           (validProfiles, err) \<Rightarrow>
             if guard env validProfiles err then
               Done ()
                 (out_T Notice
                    ''Please use the {{.forceFlag}} to delete all of the configuration and the profiles.''
                    [(''forceFlag'', VStr ''forcedelete'')]
                    (printProfiles validProfiles
                       (out_T Embarrassed ''Multiple minikube profiles were found - '' [] w)))
             else
               (case deleteProfiles env validProfiles w of
                  Exited c w1 \<Rightarrow> Exited c w1
                | Done u w1 \<Rightarrow> purgeStep env w1)))"

subsection \<open>Notions used in the properties\<close>

text \<open>
  \<open>grows P w w'\<close>: the trace of \<open>w'\<close> is the trace of \<open>w\<close> followed by entries that
  satisfy \<open>P\<close>.
\<close>

definition grows :: "(event \<Rightarrow> bool) \<Rightarrow> 'x world \<Rightarrow> 'x world \<Rightarrow> bool" where
  "grows P w w' \<longleftrightarrow>
     prefix (trace w) (trace w') \<and> list_all P (drop (length (trace w)) (trace w'))"

text \<open>
  The teardown of a profile is marked in the trace by its first call, which sets the
  active profile, and by the deletion of the profile metadata, the first call of its
  last part.  \<open>marks env ps\<close> are the marks of complete teardowns of \<open>ps\<close>, in order.
\<close>

fun is_mark :: "event \<Rightarrow> bool" where
  "is_mark (EvSet k n) = True"
| "is_mark (EvDeleteProfile n) = True"
| "is_mark ev = False"

definition marks :: "'x env \<Rightarrow> Profile list \<Rightarrow> event list" where
  "marks env ps =
     concat (map (\<lambda>p. [EvSet (MachineProfile env) (Name p), EvDeleteProfile (Name p)]) ps)"

text \<open>
  The entries that are neither marks nor recursive removals nor the heading that the
  guard prints; and the entries of the middle of a teardown, which may also remove the
  two directories of the profile.
\<close>

fun plain :: "event \<Rightarrow> bool" where
  "plain (EvSet k n) = False"
| "plain (EvDeleteProfile n) = False"
| "plain (EvRemoveAll p) = False"
| "plain (EvOut st f v) = (st \<noteq> Embarrassed)"
| "plain ev = True"

definition inner_event :: "'x env \<Rightarrow> string \<Rightarrow> event \<Rightarrow> bool" where
  "inner_event env profile ev \<longleftrightarrow>
     plain ev \<or> ev = EvRemoveAll (machineDir env profile)
     \<or> ev = EvRemoveAll (profileDir env profile)"

text \<open>A profile name none of whose components is dot-dot, as the name of a directory.\<close>

definition no_dotdot :: "string \<Rightarrow> bool" where
  "no_dotdot n \<longleftrightarrow> ''..'' \<notin> set (split_sep [] n)"


subsection \<open>Example environments and worlds\<close>

text \<open>
  Concrete inputs at which the theorems below are instantiated: every collaborator
  succeeds, the configuration file of the profile is absent, and the PID file names a
  live process.  The variants change one thing each.
\<close>

definition example_env :: "unit env" where
  "example_env =
     \<lparr>purge_flag = False, forcedelete_flag = False, bootstrapper_name = ''kubeadm'',
      MiniPath = [''home'', ''.minikube''], MountProcessFileName = ''.mount-process'',
      DriverNone = ''none'', KubeconfigPath = ''kubeconfig'', MachineProfile = ''profile'',
      ListProfiles = (\<lambda>w. ([], None)),
      cmdcfg_Set = (\<lambda>k v w. (None, w)),
      cmdcfg_Unset = (\<lambda>k w. (None, w)),
      NewAPIClient = (\<lambda>w. (Inr (API 0), w)),
      api_Close = (\<lambda>a w. ((), w)),
      Load = (\<lambda>w. Inl ErrNotExist),
      getClusterBootstrapper = (\<lambda>a n w. (Inr (Bootstrapper 0), w)),
      DeleteCluster = (\<lambda>b k w. (None, w)),
      DeleteHost = (\<lambda>a w. (None, w)),
      DeleteProfile = (\<lambda>n w. (None, w)),
      GetMachineName = (\<lambda>w. ''minikube''),
      DeleteContext = (\<lambda>p n w. (None, w)),
      os_fault = (\<lambda>c. None),
      partial_removal = (\<lambda>p q. False)\<rparr>"

definition example_world :: "unit world" where
  "example_world =
     \<lparr>fs = [[''home'', ''.minikube''] \<mapsto> Dir,
            [''home'', ''.minikube'', ''.mount-process''] \<mapsto> File ''4242''],
      procs = [4242 \<mapsto> ''minikube''], ext = (), trace = []\<rparr>"




definition env_kill_fails :: "unit env" where
  "env_kill_fails =
     example_env\<lparr>os_fault := (\<lambda>c. if c = Kill 4242 then Some ''operation not permitted'' else None)\<rparr>"

definition env_remove_fails :: "unit env" where
  "env_remove_fails =
     example_env\<lparr>os_fault :=
       (\<lambda>c. if c = Remove [''home'', ''.minikube'', ''.mount-process'']
            then Some ''permission denied'' else None)\<rparr>"

definition world_stale :: "unit world" where
  "world_stale = example_world\<lparr>procs := Map.empty\<rparr>"

definition world_garbled :: "unit world" where
  "world_garbled =
     example_world\<lparr>fs := (fs example_world)([''home'', ''.minikube'', ''.mount-process''] \<mapsto> File ''4242 '')\<rparr>"


definition env_kill_and_remove_fail :: "unit env" where
  "env_kill_and_remove_fail =
     example_env\<lparr>os_fault :=
       (\<lambda>c. if c = Kill 4242 then Some ''operation not permitted''
            else if c = Remove [''home'', ''.minikube'', ''.mount-process'']
            then Some ''permission denied'' else None)\<rparr>"

definition env_read_fails :: "unit env" where
  "env_read_fails =
     example_env\<lparr>os_fault :=
       (\<lambda>c. if c = ReadFile [''home'', ''.minikube'', ''.mount-process'']
            then Some ''input/output error'' else None)\<rparr>"

definition two_profiles :: "Profile list" where
  "two_profiles = [\<lparr>Name = ''minikube''\<rparr>, \<lparr>Name = ''second''\<rparr>]"

definition env_purge_two :: "unit env" where
  "env_purge_two = example_env\<lparr>purge_flag := True, ListProfiles := (\<lambda>w. (two_profiles, None))\<rparr>"

definition env_profile_gone :: "unit env" where
  "env_profile_gone = example_env\<lparr>DeleteProfile := (\<lambda>n w. (Some ErrNotExist, w))\<rparr>"

definition env_profile_locked :: "unit env" where
  "env_profile_locked = example_env\<lparr>DeleteProfile := (\<lambda>n w. (Some (ErrOther ''permission denied''), w))\<rparr>"

definition world_with_dirs :: "unit world" where
  "world_with_dirs =
     \<lparr>fs = [[''home'', ''.minikube''] \<mapsto> Dir,
            [''home'', ''.minikube'', ''machines'', ''minikube''] \<mapsto> Dir,
            [''home'', ''.minikube'', ''profiles'', ''minikube''] \<mapsto> Dir,
            [''home'', ''.minikube'', ''profiles'', ''minikube'', ''config.json''] \<mapsto> File ''{}''],
      procs = Map.empty, ext = (), trace = []\<rparr>"

definition world_after_teardown :: "unit world" where
  "world_after_teardown =
     example_world\<lparr>procs := Map.empty,
       trace := [EvSet ''profile'' ''minikube'', EvNewAPIClient, EvKill 4242, EvDeleteHost (API 0)]\<rparr>"


definition one_profile :: "Profile list" where
  "one_profile = [\<lparr>Name = ''minikube''\<rparr>]"

definition env_purge_profile_gone :: "unit env" where
  "env_purge_profile_gone =
     example_env\<lparr>purge_flag := True, ListProfiles := (\<lambda>w. (one_profile, None)),
       DeleteProfile := (\<lambda>n w. (Some ErrNotExist, w))\<rparr>"

definition env_purge_forced :: "unit env" where
  "env_purge_forced =
     example_env\<lparr>purge_flag := True, forcedelete_flag := True,
       ListProfiles := (\<lambda>w. (two_profiles, None))\<rparr>"


text \<open>
  What the teardown of the two profiles records in the example world: the first one kills
  the mount process, the second one finds its PID stale and removes the PID file.
\<close>

definition two_teardowns :: "event list" where
  \<open>two_teardowns =
     [EvSet ''profile'' ''minikube'', EvNewAPIClient, EvKill 4242, EvDeleteHost (API 0),
      EvDeleteProfile ''minikube'',
      EvOut Crushed ''The "{{.name}}" cluster has been deleted.'' [(''name'', VStr ''minikube'')],
      EvDeleteContext ''kubeconfig'' ''minikube'', EvUnset ''profile'', EvClose (API 0),
      EvSet ''profile'' ''second'', EvNewAPIClient,
      EvRemove [''home'', ''.minikube'', ''.mount-process''], EvDeleteHost (API 0),
      EvDeleteProfile ''second'',
      EvOut Crushed ''The "{{.name}}" cluster has been deleted.'' [(''name'', VStr ''second'')],
      EvDeleteContext ''kubeconfig'' ''minikube'', EvUnset ''profile'', EvClose (API 0)]\<close>


definition world_after_two :: "unit world" where
  "world_after_two =
     example_world\<lparr>
       fs := (fs example_world)([''home'', ''.minikube'', ''.mount-process''] := None),
       procs := Map.empty, trace := two_teardowns\<rparr>"

definition world_purged :: "unit world" where
  "world_purged =
     world_after_two\<lparr>
       fs := (\<lambda>q. if prefix [''home'', ''.minikube''] q then None else fs world_after_two q),
       trace := two_teardowns @ [EvRemoveAll [''home'', ''.minikube'']]\<rparr>"




section \<open>Properties\<close>

subsection \<open>Facts about the operating system calls\<close>

lemmas os_defs =
  pidPath_def filepath_Join_def clean_step_def absent_error_def os_Stat_def fault_def ioutil_ReadFile_def strconv_Atoi_def
  digit_val_def ps_FindProcess_def os_FindProcess_def proc_Kill_def os_Remove_def
  os_RemoveAll_def

lemma ReadFile_Inr: "ioutil_ReadFile env p w = Inr c \<Longrightarrow> fs w p = Some (File c)"
  by (auto simp: ioutil_ReadFile_def split: option.splits node.splits)

lemma Stat_exists: "fs w p \<noteq> None \<Longrightarrow> \<not> IsNotExist (os_Stat env p w)"
  by (auto simp: os_Stat_def fault_def split: option.splits)

lemma os_Remove_trace: "trace (snd (os_Remove env p w)) = trace w @ [EvRemove p]"
  by (auto simp: os_Remove_def Let_def split: option.splits node.splits)

lemma proc_Kill_trace: "trace (snd (proc_Kill env p w)) = trace w @ [EvKill p]"
  by (auto simp: proc_Kill_def Let_def split: option.splits)

lemma proc_Kill_fs: "fs (snd (proc_Kill env p w)) = fs w"
  by (auto simp: proc_Kill_def Let_def split: option.splits)

subsection \<open>The process reaper\<close>

text \<open>
  C7.  When the PID file is read, its contents parse as a PID, a live process is found for
  it and the termination signal succeeds, killMountProcess returns nil; the file system is
  what it was, the PID file is still there with its contents, and the only recorded call
  is the signal: no removal of the PID file is attempted.
\<close>

theorem kill_succeeds_pid_file_stays:
  assumes "ioutil_ReadFile env (pidPath env) w = Inr out"
    and "strconv_Atoi out = Inr pid"
    and "ps_FindProcess env pid w = Inr (Some exe)"
    and "os_FindProcess env pid = Inr proc"
    and "fst (proc_Kill env proc w) = None"
  shows "fst (killMountProcess env w) = None
    \<and> fs (snd (killMountProcess env w)) = fs w
    \<and> fs (snd (killMountProcess env w)) (pidPath env) = Some (File out)
    \<and> trace (snd (killMountProcess env w)) = trace w @ [EvKill proc]"
proof -
  have ex: "fs w (pidPath env) = Some (File out)"
    using assms(1) by (rule ReadFile_Inr)
  then have st: "\<not> IsNotExist (os_Stat env (pidPath env) w)"
    by (simp add: Stat_exists)
  obtain w1 where k: "proc_Kill env proc w = (None, w1)"
    using assms(5) by (cases "proc_Kill env proc w") simp
  have "killMountProcess env w = (None, w1)"
    using st assms(1-4) k by (simp add: killMountProcess_def)
  moreover have "fs w1 = fs w" "trace w1 = trace w @ [EvKill proc]"
    using proc_Kill_fs [of env proc w] proc_Kill_trace [of env proc w] k by simp_all
  ultimately show ?thesis using ex by simp
qed

theorem kill_succeeds_pid_file_stays_witness:
  "ioutil_ReadFile example_env (pidPath example_env) example_world = Inr ''4242''
   \<and> strconv_Atoi ''4242'' = Inr 4242
   \<and> ps_FindProcess example_env 4242 example_world = Inr (Some ''minikube'')
   \<and> os_FindProcess example_env 4242 = Inr 4242
   \<and> fst (proc_Kill example_env 4242 example_world) = None
   \<and> fst (killMountProcess example_env example_world) = None
   \<and> fs (snd (killMountProcess example_env example_world)) (pidPath example_env) = Some (File ''4242'')
   \<and> trace (snd (killMountProcess example_env example_world)) = trace example_world @ [EvKill 4242]"
proof -
  have h1: "ioutil_ReadFile example_env (pidPath example_env) example_world = Inr ''4242''"
    by (simp add: example_env_def example_world_def os_defs)
  have h2: "strconv_Atoi ''4242'' = Inr 4242"
    by (simp add: strconv_Atoi_def digit_val_def)
  have h3: "ps_FindProcess example_env 4242 example_world = Inr (Some ''minikube'')"
    by (simp add: example_env_def example_world_def os_defs)
  have h4: "os_FindProcess example_env 4242 = Inr 4242"
    by (simp add: example_env_def os_defs)
  have h5: "fst (proc_Kill example_env 4242 example_world) = None"
    by (simp add: example_env_def os_defs)
  show ?thesis
    using kill_succeeds_pid_file_stays [OF h1 h2 h3 h4 h5] h1 h2 h3 h4 h5 by blast
qed

lemma os_Remove_procs: "procs (snd (os_Remove env p w)) = procs w"
  by (auto simp: os_Remove_def Let_def split: option.splits node.splits)

lemma os_Remove_ok: "os_Remove env p w = (None, w1) \<Longrightarrow> fs w1 p = None"
  by (auto simp: os_Remove_def Let_def split: option.splits node.splits if_splits)

lemma os_Remove_failed: "os_Remove env p w = (Some e, w1) \<Longrightarrow> fs w1 = fs w"
  by (auto simp: os_Remove_def Let_def split: option.splits node.splits if_splits)

lemma ReadFile_same_file:
  "fs w p \<noteq> None \<Longrightarrow> fs w' p = fs w p \<Longrightarrow>
     ioutil_ReadFile env p w' = ioutil_ReadFile env p w"
  by (auto simp: ioutil_ReadFile_def split: option.splits)

text \<open>
  C6.  When a live process is found for the recorded PID and the termination signal fails,
  killMountProcess attempts to remove the PID file (the signal and the removal are the two
  recorded calls) and returns a wrapped error: when the removal fails too, the error of the
  removal, wrapped, and so the cause reported is the cause of the removal failure;
  otherwise the error of the signal, wrapped.
\<close>

theorem kill_fails_pid_file_removed:
  assumes "ioutil_ReadFile env (pidPath env) w = Inr out"
    and "strconv_Atoi out = Inr pid"
    and "ps_FindProcess env pid w = Inr (Some exe)"
    and "os_FindProcess env pid = Inr proc"
    and "proc_Kill env proc w = (Some e, w1)"
    and "os_Remove env (pidPath env) w1 = (r, w2)"
  shows "killMountProcess env w =
           (Some (case r of
                    Some e2 \<Rightarrow> Wrap e2 (Lit ''Removing likely stale unkillable pid'')
                  | None \<Rightarrow> Wrap e (Sprintf ''Kill(%d/%s)'' [AInt pid, AStr exe])), w2)
    \<and> trace w2 = trace w @ [EvKill proc, EvRemove (pidPath env)]
    \<and> Cause (the (fst (killMountProcess env w))) = (case r of Some e2 \<Rightarrow> Cause e2 | None \<Rightarrow> Cause e)"
proof -
  have "fs w (pidPath env) = Some (File out)"
    using assms(1) by (rule ReadFile_Inr)
  then have st: "\<not> IsNotExist (os_Stat env (pidPath env) w)"
    by (simp add: Stat_exists)
  have res: "killMountProcess env w =
           (Some (case r of
                    Some e2 \<Rightarrow> Wrap e2 (Lit ''Removing likely stale unkillable pid'')
                  | None \<Rightarrow> Wrap e (Sprintf ''Kill(%d/%s)'' [AInt pid, AStr exe])), w2)"
    using st assms by (simp add: killMountProcess_def split: option.splits)
  have "trace w1 = trace w @ [EvKill proc]"
    using proc_Kill_trace [of env proc w] assms(5) by simp
  then have tr: "trace w2 = trace w @ [EvKill proc, EvRemove (pidPath env)]"
    using os_Remove_trace [of env "pidPath env" w1] assms(6) by simp
  have "Cause (the (fst (killMountProcess env w))) = (case r of Some e2 \<Rightarrow> Cause e2 | None \<Rightarrow> Cause e)"
    by (simp add: res split: option.splits)
  with res tr show ?thesis by simp
qed

theorem kill_fails_pid_file_removed_witness:
  "killMountProcess env_kill_fails example_world =
     (Some (Wrap (ErrOther ''operation not permitted'')
              (Sprintf ''Kill(%d/%s)'' [AInt 4242, AStr ''minikube''])),
      example_world\<lparr>fs := (fs example_world)(pidPath env_kill_fails := None),
                     trace := [EvKill 4242, EvRemove (pidPath env_kill_fails)]\<rparr>)
   \<and> killMountProcess env_kill_and_remove_fail example_world =
     (Some (Wrap (ErrOther ''permission denied'') (Lit ''Removing likely stale unkillable pid'')),
      example_world\<lparr>trace := [EvKill 4242, EvRemove (pidPath env_kill_and_remove_fail)]\<rparr>)"
proof -
  let ?w1 = "example_world\<lparr>trace := [EvKill 4242]\<rparr>"
  let ?p = "[''home'', ''.minikube'', ''.mount-process'']"
  have a1: "ioutil_ReadFile env_kill_fails (pidPath env_kill_fails) example_world = Inr ''4242''"
    by (simp add: env_kill_fails_def example_env_def example_world_def os_defs)
  have a2: "strconv_Atoi ''4242'' = Inr 4242"
    by (simp add: strconv_Atoi_def digit_val_def)
  have a3: "ps_FindProcess env_kill_fails 4242 example_world = Inr (Some ''minikube'')"
    by (simp add: env_kill_fails_def example_env_def example_world_def os_defs)
  have a4: "os_FindProcess env_kill_fails 4242 = Inr 4242"
    by (simp add: env_kill_fails_def example_env_def os_defs)
  have a5: "proc_Kill env_kill_fails 4242 example_world =
              (Some (ErrOther ''operation not permitted''), ?w1)"
    by (simp add: env_kill_fails_def example_env_def example_world_def os_defs)
  have a6: "os_Remove env_kill_fails (pidPath env_kill_fails) ?w1 =
              (None, example_world\<lparr>fs := (fs example_world)(pidPath env_kill_fails := None),
                     trace := [EvKill 4242, EvRemove (pidPath env_kill_fails)]\<rparr>)"
    by (simp add: env_kill_fails_def example_env_def example_world_def os_defs)
  have b1: "ioutil_ReadFile env_kill_and_remove_fail (pidPath env_kill_and_remove_fail) example_world = Inr ''4242''"
    by (simp add: env_kill_and_remove_fail_def example_env_def example_world_def os_defs)
  have b3: "ps_FindProcess env_kill_and_remove_fail 4242 example_world = Inr (Some ''minikube'')"
    by (simp add: env_kill_and_remove_fail_def example_env_def example_world_def os_defs)
  have b4: "os_FindProcess env_kill_and_remove_fail 4242 = Inr 4242"
    by (simp add: env_kill_and_remove_fail_def example_env_def os_defs)
  have b5: "proc_Kill env_kill_and_remove_fail 4242 example_world =
              (Some (ErrOther ''operation not permitted''), ?w1)"
    by (simp add: env_kill_and_remove_fail_def example_env_def example_world_def os_defs)
  have b6: "os_Remove env_kill_and_remove_fail (pidPath env_kill_and_remove_fail) ?w1 =
              (Some (ErrOther ''permission denied''),
               example_world\<lparr>trace := [EvKill 4242, EvRemove (pidPath env_kill_and_remove_fail)]\<rparr>)"
    by (simp add: env_kill_and_remove_fail_def example_env_def example_world_def os_defs)
  show ?thesis
    using kill_fails_pid_file_removed [OF a1 a2 a3 a4 a5 a6]
      kill_fails_pid_file_removed [OF b1 a2 b3 b4 b5 b6]
    by simp
qed

text \<open>
  C5, as amended.  When the PID file is read, its contents parse as a PID and the lookup
  finds no live process for it, killMountProcess attempts to remove the PID file and makes
  no other recorded call, so that no signal is sent and the process table is unchanged.
  When the removal succeeds the file is gone and nil is returned; when it fails the error
  is returned, wrapped with the message for a stale pid, and the file system is unchanged.
\<close>

theorem stale_pid_file_removal:
  assumes "ioutil_ReadFile env (pidPath env) w = Inr out"
    and "strconv_Atoi out = Inr pid"
    and "ps_FindProcess env pid w = Inr None"
    and "os_Remove env (pidPath env) w = (r, w1)"
  shows "killMountProcess env w = (map_option (\<lambda>e. Wrap e (Lit ''Removing stale pid'')) r, w1)
    \<and> trace w1 = trace w @ [EvRemove (pidPath env)]
    \<and> procs w1 = procs w
    \<and> (case r of None \<Rightarrow> fs w1 (pidPath env) = None | Some e \<Rightarrow> fs w1 = fs w)"
proof -
  have "fs w (pidPath env) = Some (File out)"
    using assms(1) by (rule ReadFile_Inr)
  then have st: "\<not> IsNotExist (os_Stat env (pidPath env) w)"
    by (simp add: Stat_exists)
  have res: "killMountProcess env w = (map_option (\<lambda>e. Wrap e (Lit ''Removing stale pid'')) r, w1)"
    using st assms by (simp add: killMountProcess_def split: option.splits)
  have tr: "trace w1 = trace w @ [EvRemove (pidPath env)]"
    using os_Remove_trace [of env "pidPath env" w] assms(4) by simp
  have pr: "procs w1 = procs w"
    using os_Remove_procs [of env "pidPath env" w] assms(4) by simp
  have "case r of None \<Rightarrow> fs w1 (pidPath env) = None | Some e \<Rightarrow> fs w1 = fs w"
    using assms(4) by (auto split: option.splits dest: os_Remove_ok os_Remove_failed)
  with res tr pr show ?thesis by simp
qed

theorem stale_pid_file_removal_witness:
  "killMountProcess example_env world_stale =
     (None, world_stale\<lparr>fs := (fs world_stale)(pidPath example_env := None),
                        trace := [EvRemove (pidPath example_env)]\<rparr>)
   \<and> killMountProcess env_remove_fails world_stale =
     (Some (Wrap (ErrOther ''permission denied'') (Lit ''Removing stale pid'')),
      world_stale\<lparr>trace := [EvRemove (pidPath env_remove_fails)]\<rparr>)"
proof -
  have a2: "strconv_Atoi ''4242'' = Inr 4242"
    by (simp add: strconv_Atoi_def digit_val_def)
  have a1: "ioutil_ReadFile example_env (pidPath example_env) world_stale = Inr ''4242''"
    by (simp add: world_stale_def example_env_def example_world_def os_defs)
  have a3: "ps_FindProcess example_env 4242 world_stale = Inr None"
    by (simp add: world_stale_def example_env_def example_world_def os_defs)
  have a4: "os_Remove example_env (pidPath example_env) world_stale =
     (None, world_stale\<lparr>fs := (fs world_stale)(pidPath example_env := None),
                        trace := [EvRemove (pidPath example_env)]\<rparr>)"
    by (simp add: world_stale_def example_env_def example_world_def os_defs)
  have b1: "ioutil_ReadFile env_remove_fails (pidPath env_remove_fails) world_stale = Inr ''4242''"
    by (simp add: world_stale_def env_remove_fails_def example_env_def example_world_def os_defs)
  have b3: "ps_FindProcess env_remove_fails 4242 world_stale = Inr None"
    by (simp add: world_stale_def env_remove_fails_def example_env_def example_world_def os_defs)
  have b4: "os_Remove env_remove_fails (pidPath env_remove_fails) world_stale =
     (Some (ErrOther ''permission denied''),
      world_stale\<lparr>trace := [EvRemove (pidPath env_remove_fails)]\<rparr>)"
    by (simp add: world_stale_def env_remove_fails_def example_env_def example_world_def os_defs)
  show ?thesis
    using stale_pid_file_removal [OF a1 a2 a3 a4] stale_pid_file_removal [OF b1 a2 b3 b4]
    by simp
qed

text \<open>
  C5 as stated fails where the removal of the stale PID file fails: the file is read, its
  contents parse, no live process is found, and yet an error is returned and the file is
  still there.
\<close>

theorem stale_pid_removal_may_fail:
  "ioutil_ReadFile env_remove_fails (pidPath env_remove_fails) world_stale = Inr ''4242''
   \<and> strconv_Atoi ''4242'' = Inr 4242
   \<and> ps_FindProcess env_remove_fails 4242 world_stale = Inr None
   \<and> fst (killMountProcess env_remove_fails world_stale) =
       Some (Wrap (ErrOther ''permission denied'') (Lit ''Removing stale pid''))
   \<and> fs (snd (killMountProcess env_remove_fails world_stale)) (pidPath env_remove_fails) =
       Some (File ''4242'')"
  by (simp add: killMountProcess_def world_stale_def env_remove_fails_def example_env_def
        example_world_def os_defs)

text \<open>
  C10.  When the PID file exists and reading it fails, or its contents do not parse as an
  integer, killMountProcess returns a wrapped error and the world is exactly what it was:
  nothing is removed and no call is recorded.  In any world with the same PID file the
  call returns the same error and again changes nothing.
\<close>

theorem unreadable_pid_file_stays:
  assumes "fs w (pidPath env) \<noteq> None"
    and "(\<exists>e. ioutil_ReadFile env (pidPath env) w = Inl e)
         \<or> (\<exists>out e. ioutil_ReadFile env (pidPath env) w = Inr out \<and> strconv_Atoi out = Inl e)"
    and "fs w' (pidPath env) = fs w (pidPath env)"
  shows "\<exists>e m. killMountProcess env w = (Some (Wrap e m), w)
               \<and> killMountProcess env w' = (Some (Wrap e m), w')"
proof -
  have st: "\<not> IsNotExist (os_Stat env (pidPath env) w)"
    using assms(1) by (simp add: Stat_exists)
  have st': "\<not> IsNotExist (os_Stat env (pidPath env) w')"
    using assms(1,3) by (simp add: Stat_exists)
  have rd: "ioutil_ReadFile env (pidPath env) w' = ioutil_ReadFile env (pidPath env) w"
    using assms(1,3) by (rule ReadFile_same_file)
  from assms(2) show ?thesis
  proof
    assume "\<exists>e. ioutil_ReadFile env (pidPath env) w = Inl e"
    then obtain e where e: "ioutil_ReadFile env (pidPath env) w = Inl e" ..
    have "killMountProcess env w = (Some (Wrap e (Lit ''ReadFile'')), w)"
      using st e by (simp add: killMountProcess_def)
    moreover have "killMountProcess env w' = (Some (Wrap e (Lit ''ReadFile'')), w')"
      using st' e rd by (simp add: killMountProcess_def)
    ultimately show ?thesis by blast
  next
    assume "\<exists>out e. ioutil_ReadFile env (pidPath env) w = Inr out \<and> strconv_Atoi out = Inl e"
    then obtain out e where e: "ioutil_ReadFile env (pidPath env) w = Inr out"
      "strconv_Atoi out = Inl e" by blast
    have "killMountProcess env w = (Some (Wrap e (Lit ''error parsing pid'')), w)"
      using st e by (simp add: killMountProcess_def)
    moreover have "killMountProcess env w' = (Some (Wrap e (Lit ''error parsing pid'')), w')"
      using st' e rd by (simp add: killMountProcess_def)
    ultimately show ?thesis by blast
  qed
qed

theorem unreadable_pid_file_stays_witness:
  "(\<exists>e m. killMountProcess example_env world_garbled = (Some (Wrap e m), world_garbled)
      \<and> killMountProcess example_env (world_garbled\<lparr>procs := Map.empty\<rparr>)
          = (Some (Wrap e m), world_garbled\<lparr>procs := Map.empty\<rparr>))
   \<and> (\<exists>e m. killMountProcess env_read_fails example_world = (Some (Wrap e m), example_world)
      \<and> killMountProcess env_read_fails world_stale = (Some (Wrap e m), world_stale))"
proof -
  have a1: "fs world_garbled (pidPath example_env) \<noteq> None"
    by (simp add: world_garbled_def example_env_def os_defs)
  have a2: "(\<exists>e. ioutil_ReadFile example_env (pidPath example_env) world_garbled = Inl e)
         \<or> (\<exists>out e. ioutil_ReadFile example_env (pidPath example_env) world_garbled = Inr out
               \<and> strconv_Atoi out = Inl e)"
    by (simp add: world_garbled_def example_env_def os_defs)
  have a3: "fs (world_garbled\<lparr>procs := Map.empty\<rparr>) (pidPath example_env)
              = fs world_garbled (pidPath example_env)"
    by simp
  have b1: "fs example_world (pidPath env_read_fails) \<noteq> None"
    by (simp add: example_world_def env_read_fails_def example_env_def os_defs)
  have b2: "(\<exists>e. ioutil_ReadFile env_read_fails (pidPath env_read_fails) example_world = Inl e)
         \<or> (\<exists>out e. ioutil_ReadFile env_read_fails (pidPath env_read_fails) example_world = Inr out
               \<and> strconv_Atoi out = Inl e)"
    by (simp add: example_world_def env_read_fails_def example_env_def os_defs)
  have b3: "fs world_stale (pidPath env_read_fails) = fs example_world (pidPath env_read_fails)"
    by (simp add: world_stale_def)
  show ?thesis
    using unreadable_pid_file_stays [OF a1 a2 a3] unreadable_pid_file_stays [OF b1 b2 b3]
    by blast
qed

lemmas step_defs =
  collab_def query_def out_T_def out_ErrT_def os_Exit_def exit_WithError_def exit_UsageT_def

lemmas profile_defs =
  uninstallKubernetes_def removeDirectory_def machineDir_def profileDir_def
  deleteProfileDirectory_def loadConfig_def uninstallIfNone_def reapMountProcess_def
  deleteHost_def deleteProfile_teardown_def deleteProfile_unregister_def deleteProfile_def

lemma removeDirectory_absent: "fs w dir = None \<Longrightarrow> removeDirectory env dir w = Done () w"
  by (simp add: removeDirectory_def os_Stat_def fault_def split: option.splits)

lemma removeDirectory_keeps_absent:
  "removeDirectory env dir w = Done u w1 \<Longrightarrow> fs w p = None \<Longrightarrow> fs w1 p = None"
  by (auto simp: removeDirectory_def os_RemoveAll_def out_T_def exit_WithError_def os_Exit_def
        Let_def split: if_splits option.splits)

subsection \<open>Removal of the directories of a profile\<close>

text \<open>
  C8.  A directory of the profile that is absent is passed over: deleteProfileDirectory
  then does exactly what the block for the other directory does, and when both the machine
  directory and the profile directory are absent it returns with the world untouched, so
  nothing is printed, nothing is removed and the process is not terminated.
\<close>

theorem absent_directory_is_skipped:
  "(fs w (machineDir env profile) = None \<longrightarrow>
      deleteProfileDirectory env profile w = removeDirectory env (profileDir env profile) w)
   \<and> (fs w (profileDir env profile) = None \<longrightarrow>
      deleteProfileDirectory env profile w = removeDirectory env (machineDir env profile) w)
   \<and> (fs w (machineDir env profile) = None \<and> fs w (profileDir env profile) = None \<longrightarrow>
      deleteProfileDirectory env profile w = Done () w)"
proof (intro conjI impI)
  assume "fs w (machineDir env profile) = None"
  then show "deleteProfileDirectory env profile w = removeDirectory env (profileDir env profile) w"
    by (simp add: deleteProfileDirectory_def removeDirectory_absent)
next
  assume a: "fs w (profileDir env profile) = None"
  show "deleteProfileDirectory env profile w = removeDirectory env (machineDir env profile) w"
  proof (cases "removeDirectory env (machineDir env profile) w")
    case (Exited c w1)
    then show ?thesis by (simp add: deleteProfileDirectory_def)
  next
    case (Done u w1)
    then have "fs w1 (profileDir env profile) = None"
      using a by (rule removeDirectory_keeps_absent)
    then show ?thesis
      using Done by (simp add: deleteProfileDirectory_def removeDirectory_absent)
  qed
next
  assume "fs w (machineDir env profile) = None \<and> fs w (profileDir env profile) = None"
  then show "deleteProfileDirectory env profile w = Done () w"
    by (simp add: deleteProfileDirectory_def removeDirectory_absent)
qed

theorem absent_directory_is_skipped_witness:
  "fs example_world (machineDir example_env ''minikube'') = None
   \<and> fs example_world (profileDir example_env ''minikube'') = None
   \<and> deleteProfileDirectory example_env ''minikube'' example_world = Done () example_world
   \<and> fs (world_with_dirs\<lparr>fs := (fs world_with_dirs)(machineDir example_env ''minikube'' := None)\<rparr>)
        (machineDir example_env ''minikube'') = None
   \<and> deleteProfileDirectory example_env ''minikube''
        (world_with_dirs\<lparr>fs := (fs world_with_dirs)(machineDir example_env ''minikube'' := None)\<rparr>)
      = removeDirectory example_env (profileDir example_env ''minikube'')
        (world_with_dirs\<lparr>fs := (fs world_with_dirs)(machineDir example_env ''minikube'' := None)\<rparr>)"
proof -
  have a: "fs example_world (machineDir example_env ''minikube'') = None"
    by (simp add: example_world_def example_env_def machineDir_def filepath_Join_def clean_step_def)
  have b: "fs example_world (profileDir example_env ''minikube'') = None"
    by (simp add: example_world_def example_env_def profileDir_def filepath_Join_def clean_step_def)
  have c: "fs (world_with_dirs\<lparr>fs := (fs world_with_dirs)(machineDir example_env ''minikube'' := None)\<rparr>)
        (machineDir example_env ''minikube'') = None"
    by simp
  show ?thesis
    using absent_directory_is_skipped [of example_world example_env "''minikube''"]
      absent_directory_is_skipped [of "world_with_dirs\<lparr>fs := (fs world_with_dirs)(machineDir example_env ''minikube'' := None)\<rparr>" example_env "''minikube''"]
      a b c by blast
qed

subsection \<open>The guard on purging several profiles\<close>

lemma printProfiles_trace:
  "printProfiles ps w =
     w\<lparr>trace := trace w @
        map (\<lambda>p. EvOut Notice ''    - {{.profileName}}'' [(''profileName'', VStr (Name p))]) ps\<rparr>"
  by (induction ps arbitrary: w) (simp_all add: out_T_def)

text \<open>
  C1.  When purge is requested, the enumeration succeeds with more than one profile and
  force is not requested, runDelete returns without terminating the process; the world is
  the one it started in but for the trace, which gains the heading, one line for each
  profile with its name, in order, and the instruction naming the force flag.  The file
  system, the process table and the state of the collaborators are unchanged, and so the
  enumeration gives the same profiles afterwards.
\<close>

theorem guard_blocks_purge:
  assumes "query (ListProfiles env) w = (ps, None)"
    and "purge_flag env"
    and "length ps > 1"
    and "\<not> forcedelete_flag env"
  shows "runDelete env [] w =
           Done () (w\<lparr>trace := trace w @
              EvOut Embarrassed ''Multiple minikube profiles were found - '' [] #
              map (\<lambda>p. EvOut Notice ''    - {{.profileName}}'' [(''profileName'', VStr (Name p))]) ps @
              [EvOut Notice
                 ''Please use the {{.forceFlag}} to delete all of the configuration and the profiles.''
                 [(''forceFlag'', VStr ''forcedelete'')]]\<rparr>)
    \<and> fs (world_of (runDelete env [] w)) = fs w
    \<and> procs (world_of (runDelete env [] w)) = procs w
    \<and> ext (world_of (runDelete env [] w)) = ext w
    \<and> query (ListProfiles env) (world_of (runDelete env [] w)) = (ps, None)"
proof -
  have g: "guard env ps None"
    using assms by (simp add: guard_def)
  have r: "runDelete env [] w =
           Done () (w\<lparr>trace := trace w @
              EvOut Embarrassed ''Multiple minikube profiles were found - '' [] #
              map (\<lambda>p. EvOut Notice ''    - {{.profileName}}'' [(''profileName'', VStr (Name p))]) ps @
              [EvOut Notice
                 ''Please use the {{.forceFlag}} to delete all of the configuration and the profiles.''
                 [(''forceFlag'', VStr ''forcedelete'')]]\<rparr>)"
    using assms(1) g by (simp add: runDelete_def printProfiles_trace out_T_def)
  have "query (ListProfiles env) (world_of (runDelete env [] w)) = query (ListProfiles env) w"
    by (simp add: r query_def)
  then show ?thesis using r assms(1) by simp
qed

theorem guard_blocks_purge_witness:
  "query (ListProfiles env_purge_two) example_world = (two_profiles, None)
   \<and> purge_flag env_purge_two \<and> length two_profiles > 1 \<and> \<not> forcedelete_flag env_purge_two
   \<and> runDelete env_purge_two [] example_world =
       Done () (example_world\<lparr>trace :=
          [EvOut Embarrassed ''Multiple minikube profiles were found - '' [],
           EvOut Notice ''    - {{.profileName}}'' [(''profileName'', VStr ''minikube'')],
           EvOut Notice ''    - {{.profileName}}'' [(''profileName'', VStr ''second'')],
           EvOut Notice
             ''Please use the {{.forceFlag}} to delete all of the configuration and the profiles.''
             [(''forceFlag'', VStr ''forcedelete'')]]\<rparr>)"
proof -
  have a: "query (ListProfiles env_purge_two) example_world = (two_profiles, None)"
    by (simp add: env_purge_two_def query_def)
  have b: "purge_flag env_purge_two"
    by (simp add: env_purge_two_def)
  have c: "length two_profiles > 1"
    by (simp add: two_profiles_def)
  have d: "\<not> forcedelete_flag env_purge_two"
    by (simp add: env_purge_two_def example_env_def)
  have t: "trace example_world = []"
    by (simp add: example_world_def)
  show ?thesis
    using guard_blocks_purge [OF a b c d] a b c d
    by (simp add: t two_profiles_def)
qed

subsection \<open>The end of deleteProfile\<close>

lemma teardown_example:
  "deleteProfile_teardown env_profile_gone ''minikube'' example_world = Done (API 0) world_after_teardown"
  by (simp add: env_profile_gone_def example_env_def example_world_def world_after_teardown_def
      profile_defs step_defs killMountProcess_def os_defs)


lemma teardown_example_locked:
  "deleteProfile_teardown env_profile_locked ''minikube'' example_world = Done (API 0) world_after_teardown"
  by (simp add: env_profile_locked_def example_env_def example_world_def world_after_teardown_def
      profile_defs step_defs killMountProcess_def os_defs)

text \<open>
  C2.  When lines 105--143 have run without terminating the process and the deletion of
  the profile metadata returns an error, deleteProfile terminates the process there: with
  status 0 after one line of output when os.IsNotExist holds of the error, and through
  exit.WithError, with a status other than 0, for any other error.  After the deletion of
  the metadata the trace gains that one entry only: the credentials file is not edited
  and the active profile is not unset.
\<close>

theorem missing_profile_exits_zero:
  assumes "deleteProfile_teardown env profile w0 = Done api w"
    and "collab (EvDeleteProfile profile) (DeleteProfile env profile) w = (Some e, w1)"
  shows \<open>deleteProfile env profile w0 =
          (if IsNotExist (Some e)
           then Exited 0 (w1\<lparr>trace := trace w @
                   [EvDeleteProfile profile,
                    EvOut Meh ''"{{.name}}" profile does not exist'' [(''name'', VStr profile)]]\<rparr>)
           else Exited 1 (w1\<lparr>trace := trace w @
                   [EvDeleteProfile profile, EvExitWithError ''Failed to remove profile'' e]\<rparr>))
    \<and> (exit_status (deleteProfile env profile w0) = Some 0 \<longleftrightarrow> IsNotExist (Some e))
    \<and> exit_status (deleteProfile env profile w0) \<noteq> None\<close>
proof -
  have t: "trace w1 = trace w @ [EvDeleteProfile profile]"
    using assms(2) by (auto simp: collab_def split: prod.splits)
  have \<open>deleteProfile env profile w0 =
          (if IsNotExist (Some e)
           then Exited 0 (w1\<lparr>trace := trace w @
                   [EvDeleteProfile profile,
                    EvOut Meh ''"{{.name}}" profile does not exist'' [(''name'', VStr profile)]]\<rparr>)
           else Exited 1 (w1\<lparr>trace := trace w @
                   [EvDeleteProfile profile, EvExitWithError ''Failed to remove profile'' e]\<rparr>))\<close>
    using assms t
    by (simp add: deleteProfile_def deleteProfile_unregister_def out_T_def os_Exit_def
        exit_WithError_def)
  then show ?thesis by simp
qed

theorem missing_profile_exits_zero_witness:
  \<open>deleteProfile env_profile_gone ''minikube'' example_world =
     Exited 0 (world_after_teardown\<lparr>trace := trace world_after_teardown @
        [EvDeleteProfile ''minikube'',
         EvOut Meh ''"{{.name}}" profile does not exist'' [(''name'', VStr ''minikube'')]]\<rparr>)
   \<and> deleteProfile env_profile_locked ''minikube'' example_world =
     Exited 1 (world_after_teardown\<lparr>trace := trace world_after_teardown @
        [EvDeleteProfile ''minikube'',
         EvExitWithError ''Failed to remove profile'' (ErrOther ''permission denied'')]\<rparr>)\<close>
proof -
  have a: "collab (EvDeleteProfile ''minikube'') (DeleteProfile env_profile_gone ''minikube'')
             world_after_teardown =
           (Some ErrNotExist,
            world_after_teardown\<lparr>trace := trace world_after_teardown @ [EvDeleteProfile ''minikube'']\<rparr>)"
    by (simp add: collab_def env_profile_gone_def)
  have b: "collab (EvDeleteProfile ''minikube'') (DeleteProfile env_profile_locked ''minikube'')
             world_after_teardown =
           (Some (ErrOther ''permission denied''),
            world_after_teardown\<lparr>trace := trace world_after_teardown @ [EvDeleteProfile ''minikube'']\<rparr>)"
    by (simp add: collab_def env_profile_locked_def)
  show ?thesis
    using missing_profile_exits_zero [OF teardown_example a]
      missing_profile_exits_zero [OF teardown_example_locked b]
    by simp
qed

subsection \<open>How the trace grows\<close>

lemma grows_iff: "grows P w w' \<longleftrightarrow> (\<exists>evs. trace w' = trace w @ evs \<and> list_all P evs)"
  by (auto simp: grows_def prefix_def)

lemma grows_refl: "grows P w w"
  by (simp add: grows_iff)

lemma grows_trans [trans]: "grows P w w1 \<Longrightarrow> grows P w1 w2 \<Longrightarrow> grows P w w2"
  by (auto simp: grows_iff)

lemma grows_mono: "grows P w w' \<Longrightarrow> (\<And>ev. P ev \<Longrightarrow> Q ev) \<Longrightarrow> grows Q w w'"
  by (auto simp: grows_iff list_all_iff)

lemma collab_trace: "trace (snd (collab ev f w)) = trace w @ [ev]"
  by (simp add: collab_def split: prod.splits)

lemma os_RemoveAll_trace: "trace (snd (os_RemoveAll env p w)) = trace w @ [EvRemoveAll p]"
  by (auto simp: os_RemoveAll_def Let_def split: option.splits)

lemma os_Remove_traceD: "os_Remove env p w = (r, w1) \<Longrightarrow> trace w1 = trace w @ [EvRemove p]"
  using os_Remove_trace [of env p w] by simp

lemma proc_Kill_traceD: "proc_Kill env p w = (r, w1) \<Longrightarrow> trace w1 = trace w @ [EvKill p]"
  using proc_Kill_trace [of env p w] by simp

lemma collab_traceD: "collab ev f w = (r, w1) \<Longrightarrow> trace w1 = trace w @ [ev]"
  using collab_trace [of ev f w] by simp

lemma os_RemoveAll_traceD:
  "os_RemoveAll env p w = (r, w1) \<Longrightarrow> trace w1 = trace w @ [EvRemoveAll p]"
  using os_RemoveAll_trace [of env p w] by simp

lemma grows_killMountProcess: "killMountProcess env w = (r, w1) \<Longrightarrow> grows plain w w1"
  unfolding killMountProcess_def grows_iff
  by (auto split: sum.splits option.splits prod.splits if_splits
      dest!: os_Remove_traceD proc_Kill_traceD)

lemma grows_reapMountProcess: "grows plain w (reapMountProcess env w)"
  unfolding reapMountProcess_def
  by (auto simp: out_T_def grows_iff split: prod.splits option.splits
      dest!: grows_killMountProcess)

lemma grows_uninstallKubernetes: "grows plain w (uninstallKubernetes env api kc bs w)"
  unfolding uninstallKubernetes_def Let_def grows_iff
  by (auto simp: out_T_def out_ErrT_def split: prod.splits sum.splits option.splits
      dest!: collab_traceD)

lemma grows_uninstallIfNone: "grows plain w (uninstallIfNone env api lr w)"
  by (auto simp: uninstallIfNone_def grows_refl grows_uninstallKubernetes split: sum.splits)

lemma grows_loadConfig: "loadConfig env profile w = (lr, w1) \<Longrightarrow> grows plain w w1"
  by (auto simp: loadConfig_def grows_iff out_ErrT_def split: sum.splits if_splits)

lemma grows_deleteHost: "grows plain w (deleteHost env profile api w)"
  unfolding deleteHost_def grows_iff
  by (auto simp: out_T_def split: prod.splits option.splits error.splits
      dest!: collab_traceD)

lemma grows_removeDirectory:
  "grows (\<lambda>ev. plain ev \<or> ev = EvRemoveAll dir) w (world_of (removeDirectory env dir w))"
  unfolding removeDirectory_def grows_iff
  by (auto simp: out_T_def exit_WithError_def os_Exit_def split: prod.splits option.splits
      dest!: os_RemoveAll_traceD)

lemma grows_deleteProfileDirectory:
  "grows (inner_event env profile) w (world_of (deleteProfileDirectory env profile w))"
proof -
  have m: "grows (inner_event env profile) w0
             (world_of (removeDirectory env (machineDir env profile) w0))" for w0
    by (rule grows_mono [OF grows_removeDirectory]) (auto simp: inner_event_def)
  have p: "grows (inner_event env profile) w0
             (world_of (removeDirectory env (profileDir env profile) w0))" for w0
    by (rule grows_mono [OF grows_removeDirectory]) (auto simp: inner_event_def)
  show ?thesis
  proof (cases "removeDirectory env (machineDir env profile) w")
    case (Exited c w1)
    then show ?thesis
      using m [of w] by (simp add: deleteProfileDirectory_def)
  next
    case (Done u w1)
    then have "grows (inner_event env profile) w w1"
      using m [of w] by simp
    then have "grows (inner_event env profile) w
                 (world_of (removeDirectory env (profileDir env profile) w1))"
      using p [of w1] by (rule grows_trans)
    then show ?thesis
      using Done by (simp add: deleteProfileDirectory_def)
  qed
qed

lemma teardown_trace:
  "\<exists>evs. trace (world_of (deleteProfile_teardown env profile w)) =
           trace w @ EvSet (MachineProfile env) profile # evs
         \<and> list_all (inner_event env profile) evs"
proof (cases "collab (EvSet (MachineProfile env) profile)
                (cmdcfg_Set env (MachineProfile env) profile) w")
  case (Pair r1 w1)
  then have t1: "trace w1 = trace w @ [EvSet (MachineProfile env) profile]"
    by (rule collab_traceD)
  show ?thesis
  proof (cases r1)
    case (Some e)
    then show ?thesis
      using Pair t1
      by (simp add: deleteProfile_teardown_def exit_WithError_def os_Exit_def inner_event_def)
  next
    case None
    show ?thesis
    proof (cases "collab EvNewAPIClient (NewAPIClient env) w1")
      case p2: (Pair r2 w2)
      then have t2: "trace w2 = trace w1 @ [EvNewAPIClient]"
        by (rule collab_traceD)
      show ?thesis
      proof (cases r2)
        case (Inl e)
        then show ?thesis
          using Pair None p2 t1 t2
          by (simp add: deleteProfile_teardown_def exit_WithError_def os_Exit_def
              inner_event_def)
      next
        case (Inr api)
        obtain lr w3 where l: "loadConfig env profile w2 = (lr, w3)"
          by (cases "loadConfig env profile w2")
        let ?w4 = "uninstallIfNone env api lr w3"
        let ?w5 = "reapMountProcess env ?w4"
        let ?w6 = "deleteHost env profile api ?w5"
        let ?w7 = "world_of (deleteProfileDirectory env profile ?w6)"
        have "grows plain w2 w3"
          using l by (rule grows_loadConfig)
        also have "grows plain w3 ?w4"
          by (rule grows_uninstallIfNone)
        also have "grows plain ?w4 ?w5"
          by (rule grows_reapMountProcess)
        also have "grows plain ?w5 ?w6"
          by (rule grows_deleteHost)
        finally have "grows (inner_event env profile) w2 ?w6"
          by (rule grows_mono) (simp add: inner_event_def)
        also have "grows (inner_event env profile) ?w6 ?w7"
          by (rule grows_deleteProfileDirectory)
        finally have "grows (inner_event env profile) w2 ?w7" .
        then obtain evs where e: "trace ?w7 = trace w2 @ evs"
          "list_all (inner_event env profile) evs"
          by (auto simp: grows_iff)
        have "world_of (deleteProfile_teardown env profile w) = ?w7"
          using Pair None p2 Inr l
          by (simp add: deleteProfile_teardown_def split: outcome.splits)
        then show ?thesis
          using e t1 t2 by (simp add: inner_event_def)
      qed
    qed
  qed
qed

lemma unregister_trace:
  "\<exists>evs. trace (world_of (deleteProfile_unregister env profile api w)) =
           trace w @ EvDeleteProfile profile # evs
         \<and> list_all plain evs"
proof (cases "collab (EvDeleteProfile profile) (DeleteProfile env profile) w")
  case (Pair r1 w1)
  then have t1: "trace w1 = trace w @ [EvDeleteProfile profile]"
    by (rule collab_traceD)
  show ?thesis
  proof (cases r1)
    case (Some e)
    then show ?thesis
      using Pair t1
      by (simp add: deleteProfile_unregister_def out_T_def exit_WithError_def os_Exit_def)
  next
    case None
    define w2 where \<open>w2 = out_T Crushed ''The "{{.name}}" cluster has been deleted.''
                     [(''name'', VStr profile)] w1\<close>
    define machineName where "machineName = query (GetMachineName env) w2"
    have t2: "trace w2 = trace w1 @ [EvOut Crushed ''The \"{{.name}}\" cluster has been deleted.''
                     [(''name'', VStr profile)]]"
      by (simp add: w2_def out_T_def)
    obtain r3 w3 where p3: "collab (EvDeleteContext (KubeconfigPath env) machineName)
                    (DeleteContext env (KubeconfigPath env) machineName) w2 = (r3, w3)"
      by (cases "collab (EvDeleteContext (KubeconfigPath env) machineName)
                    (DeleteContext env (KubeconfigPath env) machineName) w2")
    then have t3: "trace w3 = trace w2 @ [EvDeleteContext (KubeconfigPath env) machineName]"
      by (rule collab_traceD)
    obtain r4 w4 where p4: "collab (EvUnset (MachineProfile env))
                        (cmdcfg_Unset env (MachineProfile env)) w3 = (r4, w4)"
      by (cases "collab (EvUnset (MachineProfile env))
                        (cmdcfg_Unset env (MachineProfile env)) w3")
    then have t4: "trace w4 = trace w3 @ [EvUnset (MachineProfile env)]"
      by (rule collab_traceD)
    have u: "deleteProfile_unregister env profile api w =
               (case r3 of Some e \<Rightarrow> exit_WithError ''update config'' e w3
                | None \<Rightarrow> (case r4 of Some e \<Rightarrow> exit_WithError ''unset minikube profile'' e w4
                   | None \<Rightarrow> Done () (snd (collab (EvClose api) (api_Close env api) w4))))"
      using Pair None p3 p4
      by (simp add: deleteProfile_unregister_def w2_def [symmetric] machineName_def [symmetric]
          split: option.splits)
    show ?thesis
      unfolding u using t1 t2 t3 t4
      by (simp add: exit_WithError_def os_Exit_def collab_trace split: option.splits)
  qed
qed

lemma plain_not_mark: "plain ev \<Longrightarrow> \<not> is_mark ev"
  by (cases ev) simp_all

lemma inner_not_mark: "inner_event env profile ev \<Longrightarrow> \<not> is_mark ev"
  by (cases ev) (simp_all add: inner_event_def)

lemma filter_mark_plain: "list_all plain evs \<Longrightarrow> filter is_mark evs = []"
  by (auto simp: list_all_iff filter_empty_conv dest: plain_not_mark)

lemma filter_mark_inner: "list_all (inner_event env profile) evs \<Longrightarrow> filter is_mark evs = []"
  by (auto simp: list_all_iff filter_empty_conv dest: inner_not_mark)

lemma plain_facts:
  "list_all plain evs \<Longrightarrow> EvRemoveAll q \<notin> set evs"
  "list_all plain evs \<Longrightarrow> EvOut Embarrassed f v \<notin> set evs"
  by (auto simp: list_all_iff)

lemma inner_facts:
  "list_all (inner_event env profile) evs \<Longrightarrow> EvRemoveAll q \<in> set evs \<Longrightarrow>
     q = machineDir env profile \<or> q = profileDir env profile"
  "list_all (inner_event env profile) evs \<Longrightarrow> EvOut Embarrassed f v \<notin> set evs"
  by (auto simp: list_all_iff inner_event_def)

lemma deleteProfile_trace:
  "\<exists>evs. trace (world_of (deleteProfile env profile w)) =
           trace w @ EvSet (MachineProfile env) profile # evs
         \<and> (filter is_mark evs = [] \<or> filter is_mark evs = [EvDeleteProfile profile])
         \<and> (exit_status (deleteProfile env profile w) = None \<longrightarrow>
              filter is_mark evs = [EvDeleteProfile profile])
         \<and> (\<forall>q. EvRemoveAll q \<in> set evs \<longrightarrow>
              q = machineDir env profile \<or> q = profileDir env profile)
         \<and> (\<forall>f v. EvOut Embarrassed f v \<notin> set evs)"
proof -
  obtain evs where e:
    "trace (world_of (deleteProfile_teardown env profile w)) =
       trace w @ EvSet (MachineProfile env) profile # evs"
    "list_all (inner_event env profile) evs"
    using teardown_trace [of env profile w] by (elim exE conjE)
  note i = filter_mark_inner [OF e(2)] inner_facts [OF e(2)]
  show ?thesis
  proof (cases "deleteProfile_teardown env profile w")
    case (Exited c w1)
    then have "trace (world_of (deleteProfile env profile w)) =
                 trace w @ EvSet (MachineProfile env) profile # evs"
      and "exit_status (deleteProfile env profile w) = Some c"
      using e(1) by (simp_all add: deleteProfile_def)
    then show ?thesis
      using i by (intro exI [where x = evs]) auto
  next
    case (Done api w1)
    obtain evs' where e':
      "trace (world_of (deleteProfile_unregister env profile api w1)) =
         trace w1 @ EvDeleteProfile profile # evs'"
      "list_all plain evs'"
      using unregister_trace [of env profile api w1] by (elim exE conjE)
    note j = filter_mark_plain [OF e'(2)] plain_facts [OF e'(2)]
    let ?all = "evs @ EvDeleteProfile profile # evs'"
    have a: "trace (world_of (deleteProfile env profile w)) =
            trace w @ EvSet (MachineProfile env) profile # ?all"
      using Done e(1) e'(1) by (simp add: deleteProfile_def)
    have b: "filter is_mark ?all = [EvDeleteProfile profile]"
      using i(1) j(1) by simp
    have c: "\<forall>q. EvRemoveAll q \<in> set ?all \<longrightarrow>
              q = machineDir env profile \<or> q = profileDir env profile"
      using i(2) j(2) by auto
    have d: "\<forall>f v. EvOut Embarrassed f v \<notin> set ?all"
      using i(3) j(3) by auto
    show ?thesis
      using a b c d by (intro exI [where x = ?all]) simp
  qed
qed

lemma deleteProfiles_trace:
  "\<exists>evs. trace (world_of (deleteProfiles env ps w)) = trace w @ evs
         \<and> prefix (filter is_mark evs) (marks env ps)
         \<and> (exit_status (deleteProfiles env ps w) = None \<longrightarrow> filter is_mark evs = marks env ps)
         \<and> (\<forall>q. EvRemoveAll q \<in> set evs \<longrightarrow>
              (\<exists>p\<in>set ps. q = machineDir env (Name p) \<or> q = profileDir env (Name p)))
         \<and> (\<forall>f v. EvOut Embarrassed f v \<notin> set evs)
         \<and> (ps \<noteq> [] \<longrightarrow> evs \<noteq> [] \<and> hd evs = EvSet (MachineProfile env) (Name (hd ps)))
         \<and> (ps = [] \<longrightarrow> evs = [] \<and> exit_status (deleteProfiles env ps w) = None)"
proof (induction ps arbitrary: w)
  case Nil
  then show ?case by (simp add: marks_def)
next
  case (Cons p ps)
  let ?set = "EvSet (MachineProfile env) (Name p)"
  let ?del = "EvDeleteProfile (Name p)"
  have mk: "marks env (p # ps) = ?set # ?del # marks env ps"
    by (simp add: marks_def)
  obtain evs where e:
    "trace (world_of (deleteProfile env (Name p) w)) = trace w @ ?set # evs"
    "filter is_mark evs = [] \<or> filter is_mark evs = [?del]"
    "exit_status (deleteProfile env (Name p) w) = None \<longrightarrow> filter is_mark evs = [?del]"
    "\<forall>q. EvRemoveAll q \<in> set evs \<longrightarrow>
        q = machineDir env (Name p) \<or> q = profileDir env (Name p)"
    "\<forall>f v. EvOut Embarrassed f v \<notin> set evs"
    using deleteProfile_trace [of env "Name p" w] by (elim exE conjE)
  show ?case
  proof (cases "deleteProfile env (Name p) w")
    case (Exited c w1)
    let ?all = "?set # evs"
    have a: "trace (world_of (deleteProfiles env (p # ps) w)) = trace w @ ?all"
      and x: "exit_status (deleteProfiles env (p # ps) w) = Some c"
      using Exited e(1) by simp_all
    have b: "prefix (filter is_mark ?all) (marks env (p # ps))"
      using e(2) by (auto simp: mk)
    have c: "\<forall>q. EvRemoveAll q \<in> set ?all \<longrightarrow>
              (\<exists>r\<in>set (p # ps). q = machineDir env (Name r) \<or> q = profileDir env (Name r))"
      using e(4) by auto
    have d: "\<forall>f v. EvOut Embarrassed f v \<notin> set ?all"
      using e(5) by auto
    show ?thesis
      using a b c d x by (intro exI [where x = ?all]) simp
  next
    case (Done u w1)
    obtain evs' where e':
      "trace (world_of (deleteProfiles env ps w1)) = trace w1 @ evs'"
      "prefix (filter is_mark evs') (marks env ps)"
      "exit_status (deleteProfiles env ps w1) = None \<longrightarrow> filter is_mark evs' = marks env ps"
      "\<forall>q. EvRemoveAll q \<in> set evs' \<longrightarrow>
         (\<exists>r\<in>set ps. q = machineDir env (Name r) \<or> q = profileDir env (Name r))"
      "\<forall>f v. EvOut Embarrassed f v \<notin> set evs'"
      using Cons.IH [of w1] by (elim exE conjE)
    let ?all = "?set # evs @ evs'"
    have f: "filter is_mark evs = [?del]"
      using Done e(3) by simp
    have a: "trace (world_of (deleteProfiles env (p # ps) w)) = trace w @ ?all"
      using Done e(1) e'(1) by simp
    have b: "prefix (filter is_mark ?all) (marks env (p # ps))"
      using f e'(2) by (simp add: mk)
    have b': "exit_status (deleteProfiles env (p # ps) w) = None \<longrightarrow>
                filter is_mark ?all = marks env (p # ps)"
      using Done f e'(3) by (simp add: mk)
    have c: "\<forall>q. EvRemoveAll q \<in> set ?all \<longrightarrow>
              (\<exists>r\<in>set (p # ps). q = machineDir env (Name r) \<or> q = profileDir env (Name r))"
      using e(4) e'(4) by auto
    have d: "\<forall>f v. EvOut Embarrassed f v \<notin> set ?all"
      using e(5) e'(5) by auto
    show ?thesis
      using a b b' c d by (intro exI [where x = ?all]) simp
  qed
qed

subsection \<open>Where the directories of a profile lie\<close>

lemma foldl_clean_step:
  "''..'' \<notin> set cs \<Longrightarrow> foldl clean_step b cs = b @ filter (\<lambda>c. c \<noteq> [] \<and> c \<noteq> ''.'') cs"
  by (induction cs arbitrary: b) (auto simp: clean_step_def)

lemma not_prefix_longer: "\<not> prefix (b @ x # xs) b"
  by (auto dest: prefix_length_le)

lemma machineDir_below: "no_dotdot n \<Longrightarrow> \<not> prefix (machineDir env n) (MiniPath env)"
proof -
  assume "no_dotdot n"
  then have "''..'' \<notin> set (split_sep [] ''machines'' @ split_sep [] n)"
    by (simp add: no_dotdot_def)
  then have "machineDir env n =
               MiniPath env @ filter (\<lambda>c. c \<noteq> [] \<and> c \<noteq> ''.'')
                 (split_sep [] ''machines'' @ split_sep [] n)"
    by (simp add: machineDir_def filepath_Join_def foldl_clean_step del: split_sep.simps)
  then show ?thesis
    by (simp add: not_prefix_longer)
qed

lemma profileDir_below: "no_dotdot n \<Longrightarrow> \<not> prefix (profileDir env n) (MiniPath env)"
proof -
  assume "no_dotdot n"
  then have "''..'' \<notin> set (split_sep [] ''profiles'' @ split_sep [] n)"
    by (simp add: no_dotdot_def)
  then have "profileDir env n =
               MiniPath env @ filter (\<lambda>c. c \<noteq> [] \<and> c \<noteq> ''.'')
                 (split_sep [] ''profiles'' @ split_sep [] n)"
    by (simp add: profileDir_def filepath_Join_def foldl_clean_step del: split_sep.simps)
  then show ?thesis
    by (simp add: not_prefix_longer)
qed

text \<open>
  The restriction on the names is needed: for a profile named dot-dot the machine
  directory is the configuration root itself.
\<close>

lemma dotdot_machineDir_is_root: "machineDir env ''..'' = MiniPath env"
  by (simp add: machineDir_def filepath_Join_def clean_step_def)

subsection \<open>An error of the enumeration\<close>

lemma marks_mem:
  "p \<in> set ps \<Longrightarrow> EvSet (MachineProfile env) (Name p) \<in> set (marks env ps)"
  "p \<in> set ps \<Longrightarrow> EvDeleteProfile (Name p) \<in> set (marks env ps)"
  by (auto simp: marks_def)

lemma filter_mem: "filter P xs = ys \<Longrightarrow> x \<in> set ys \<Longrightarrow> x \<in> set xs"
  by auto





subsection \<open>The purge of the configuration root\<close>

lemma os_RemoveAll_ok:
  "os_RemoveAll env p w = (None, w1) \<Longrightarrow> prefix p q \<Longrightarrow> fs w1 q = None"
  by (auto simp: os_RemoveAll_def Let_def split: option.splits if_splits)

lemma os_RemoveAll_outside:
  "os_RemoveAll env p w = (r, w1) \<Longrightarrow> \<not> prefix p q \<Longrightarrow> fs w1 q = fs w q"
  by (auto simp: os_RemoveAll_def Let_def split: option.splits if_splits)

lemma loop_example:
  "deleteProfiles env_purge_forced two_profiles example_world = Done () world_after_two"
  by (simp add: env_purge_forced_def two_profiles_def example_env_def example_world_def
      world_after_two_def two_teardowns_def profile_defs step_defs killMountProcess_def os_defs)

lemma purge_example:
  "os_RemoveAll env_purge_forced (MiniPath env_purge_forced) world_after_two = (None, world_purged)"
  unfolding world_purged_def world_after_two_def example_world_def
  by (simp add: env_purge_forced_def example_env_def os_RemoveAll_def fault_def cong: if_cong)

text \<open>
  C9, as amended.  Let purge be requested, the guard not be taken, and no profile name
  have a dot-dot component.  The teardowns run first, in the order of the profiles, and
  none of their recursive removals is of the configuration root or of a directory above
  it.  When one of them terminates the process, the run ends there and the root is never
  removed.  When all of them return, every profile has had its complete teardown, and
  only then the recursive removal of the root is attempted.  If it succeeds, no path
  under the root remains, every other path is as it was, and runDelete returns after one
  line of output.  If it fails the process is terminated through exit.WithError; what
  was under the root may be gone in part, and every other path is as it was.
\<close>

theorem purge_follows_all_teardowns:
  assumes "query (ListProfiles env) w = (ps, err)"
    and "\<not> guard env ps err"
    and "purge_flag env"
    and "\<forall>p\<in>set ps. no_dotdot (Name p)"
  shows "\<exists>evs. trace (world_of (deleteProfiles env ps w)) = trace w @ evs
      \<and> (\<forall>q. EvRemoveAll q \<in> set evs \<longrightarrow> \<not> prefix q (MiniPath env))
      \<and> prefix (filter is_mark evs) (marks env ps)
      \<and> (case deleteProfiles env ps w of
           Exited c w1 \<Rightarrow> runDelete env [] w = Exited c w1
         | Done u w1 \<Rightarrow>
             filter is_mark evs = marks env ps
             \<and> (\<forall>p\<in>set ps. EvSet (MachineProfile env) (Name p) \<in> set evs
                         \<and> EvDeleteProfile (Name p) \<in> set evs)
             \<and> (case os_RemoveAll env (MiniPath env) w1 of
                  (None, w2) \<Rightarrow>
                    runDelete env [] w =
                      Done () (out_T Crushed
                        ''Successfully purged minikube directory located at - [{{.minikubeDirectory}}]''
                        [(''minikubeDirectory'', VPath (MiniPath env))] w2)
                    \<and> trace w2 = trace w1 @ [EvRemoveAll (MiniPath env)]
                    \<and> (\<forall>q. prefix (MiniPath env) q \<longrightarrow> fs w2 q = None)
                    \<and> (\<forall>q. \<not> prefix (MiniPath env) q \<longrightarrow> fs w2 q = fs w1 q)
                | (Some e, w2) \<Rightarrow>
                    runDelete env [] w =
                      Exited 1 (w2\<lparr>trace := trace w1 @
                        [EvRemoveAll (MiniPath env),
                         EvExitWithError ''unable to delete minikube config folder'' e]\<rparr>)
                    \<and> (\<forall>q. \<not> prefix (MiniPath env) q \<longrightarrow> fs w2 q = fs w1 q)))"
proof -
  obtain evs where e:
    "trace (world_of (deleteProfiles env ps w)) = trace w @ evs"
    "prefix (filter is_mark evs) (marks env ps)"
    "exit_status (deleteProfiles env ps w) = None \<longrightarrow> filter is_mark evs = marks env ps"
    "\<forall>q. EvRemoveAll q \<in> set evs \<longrightarrow>
       (\<exists>p\<in>set ps. q = machineDir env (Name p) \<or> q = profileDir env (Name p))"
    using deleteProfiles_trace [of env ps w] by (elim exE conjE)
  have n: "\<forall>q. EvRemoveAll q \<in> set evs \<longrightarrow> \<not> prefix q (MiniPath env)"
    using e(4) assms(4) by (auto dest: machineDir_below profileDir_below)
  have r: "runDelete env [] w =
             (case deleteProfiles env ps w of
                Exited c w1 \<Rightarrow> Exited c w1
              | Done u w1 \<Rightarrow> purgeStep env w1)"
    using assms(1,2) by (simp add: runDelete_def)
  have c: "case deleteProfiles env ps w of
           Exited c w1 \<Rightarrow> runDelete env [] w = Exited c w1
         | Done u w1 \<Rightarrow>
             filter is_mark evs = marks env ps
             \<and> (\<forall>p\<in>set ps. EvSet (MachineProfile env) (Name p) \<in> set evs
                         \<and> EvDeleteProfile (Name p) \<in> set evs)
             \<and> (case os_RemoveAll env (MiniPath env) w1 of
                  (None, w2) \<Rightarrow>
                    runDelete env [] w =
                      Done () (out_T Crushed
                        ''Successfully purged minikube directory located at - [{{.minikubeDirectory}}]''
                        [(''minikubeDirectory'', VPath (MiniPath env))] w2)
                    \<and> trace w2 = trace w1 @ [EvRemoveAll (MiniPath env)]
                    \<and> (\<forall>q. prefix (MiniPath env) q \<longrightarrow> fs w2 q = None)
                    \<and> (\<forall>q. \<not> prefix (MiniPath env) q \<longrightarrow> fs w2 q = fs w1 q)
                | (Some e, w2) \<Rightarrow>
                    runDelete env [] w =
                      Exited 1 (w2\<lparr>trace := trace w1 @
                        [EvRemoveAll (MiniPath env),
                         EvExitWithError ''unable to delete minikube config folder'' e]\<rparr>)
                    \<and> (\<forall>q. \<not> prefix (MiniPath env) q \<longrightarrow> fs w2 q = fs w1 q))"
  proof (cases "deleteProfiles env ps w")
    case (Exited c w1)
    then show ?thesis using r by simp
  next
    case (Done u w1)
    then have f: "filter is_mark evs = marks env ps"
      using e(3) by simp
    have all: "\<forall>p\<in>set ps. EvSet (MachineProfile env) (Name p) \<in> set evs
                         \<and> EvDeleteProfile (Name p) \<in> set evs"
      using filter_mem [OF f] marks_mem [where env = env and ps = ps] by blast
    obtain r2 w2 where p: "os_RemoveAll env (MiniPath env) w1 = (r2, w2)"
      by (cases "os_RemoveAll env (MiniPath env) w1")
    then have t: "trace w2 = trace w1 @ [EvRemoveAll (MiniPath env)]"
      by (rule os_RemoveAll_traceD)
    have out: "\<forall>q. \<not> prefix (MiniPath env) q \<longrightarrow> fs w2 q = fs w1 q"
      using p by (auto dest: os_RemoveAll_outside)
    show ?thesis
    proof (cases r2)
      case None
      then have "\<forall>q. prefix (MiniPath env) q \<longrightarrow> fs w2 q = None"
        using p by (auto dest: os_RemoveAll_ok)
      then show ?thesis
        using Done f all p None t out r assms(3) by (simp add: purgeStep_def)
    next
      case (Some e)
      then show ?thesis
        using Done f all p t out r assms(3)
        by (simp add: purgeStep_def exit_WithError_def os_Exit_def)
    qed
  qed
  show ?thesis
    using e(1) n e(2) c by (intro exI [where x = evs] conjI)
qed

theorem purge_follows_all_teardowns_witness:
  "query (ListProfiles env_purge_forced) example_world = (two_profiles, None)
   \<and> \<not> guard env_purge_forced two_profiles None
   \<and> purge_flag env_purge_forced
   \<and> no_dotdot ''minikube'' \<and> no_dotdot ''second''
   \<and> runDelete env_purge_forced [] example_world =
       Done () (out_T Crushed
         ''Successfully purged minikube directory located at - [{{.minikubeDirectory}}]''
         [(''minikubeDirectory'', VPath (MiniPath env_purge_forced))] world_purged)
   \<and> trace world_after_two = trace example_world @ two_teardowns
   \<and> filter is_mark two_teardowns = marks env_purge_forced two_profiles
   \<and> trace world_purged = trace world_after_two @ [EvRemoveAll (MiniPath env_purge_forced)]
   \<and> fs world_purged [''home'', ''.minikube'', ''.mount-process''] = None
   \<and> fs world_purged [''home'', ''.minikube''] = None"
proof -
  have a: "query (ListProfiles env_purge_forced) example_world = (two_profiles, None)"
    by (simp add: env_purge_forced_def query_def)
  have b: "\<not> guard env_purge_forced two_profiles None"
    by (simp add: guard_def env_purge_forced_def)
  have c: "purge_flag env_purge_forced"
    by (simp add: env_purge_forced_def)
  have d1: "no_dotdot ''minikube''" and d2: "no_dotdot ''second''"
    by (simp_all add: no_dotdot_def)
  have d: "\<forall>p\<in>set two_profiles. no_dotdot (Name p)"
    using d1 d2 by (simp add: two_profiles_def)
  have t0: "trace world_after_two = trace example_world @ two_teardowns"
    by (simp add: world_after_two_def example_world_def)
  have pre: "prefix [''home'', ''.minikube''] [''home'', ''.minikube'', ''.mount-process'']"
    "prefix [''home'', ''.minikube''] [''home'', ''.minikube'']"
    by simp_all
  have root: "MiniPath env_purge_forced = [''home'', ''.minikube'']"
    by (simp add: env_purge_forced_def example_env_def)
  obtain evs where e:
    "trace (world_of (deleteProfiles env_purge_forced two_profiles example_world)) =
       trace example_world @ evs"
    "case deleteProfiles env_purge_forced two_profiles example_world of
           Exited c w1 \<Rightarrow> runDelete env_purge_forced [] example_world = Exited c w1
         | Done u w1 \<Rightarrow>
             filter is_mark evs = marks env_purge_forced two_profiles
             \<and> (\<forall>p\<in>set two_profiles. EvSet (MachineProfile env_purge_forced) (Name p) \<in> set evs
                         \<and> EvDeleteProfile (Name p) \<in> set evs)
             \<and> (case os_RemoveAll env_purge_forced (MiniPath env_purge_forced) w1 of
                  (None, w2) \<Rightarrow>
                    runDelete env_purge_forced [] example_world =
                      Done () (out_T Crushed
                        ''Successfully purged minikube directory located at - [{{.minikubeDirectory}}]''
                        [(''minikubeDirectory'', VPath (MiniPath env_purge_forced))] w2)
                    \<and> trace w2 = trace w1 @ [EvRemoveAll (MiniPath env_purge_forced)]
                    \<and> (\<forall>q. prefix (MiniPath env_purge_forced) q \<longrightarrow> fs w2 q = None)
                    \<and> (\<forall>q. \<not> prefix (MiniPath env_purge_forced) q \<longrightarrow> fs w2 q = fs w1 q)
                | (Some e, w2) \<Rightarrow>
                    runDelete env_purge_forced [] example_world =
                      Exited 1 (w2\<lparr>trace := trace w1 @
                        [EvRemoveAll (MiniPath env_purge_forced),
                         EvExitWithError ''unable to delete minikube config folder'' e]\<rparr>)
                    \<and> (\<forall>q. \<not> prefix (MiniPath env_purge_forced) q \<longrightarrow> fs w2 q = fs w1 q))"
    using purge_follows_all_teardowns [OF a b c d] by (elim exE conjE)
  have evs: "evs = two_teardowns"
    using e(1) t0 by (simp add: loop_example)
  have k: "filter is_mark two_teardowns = marks env_purge_forced two_profiles
      \<and> runDelete env_purge_forced [] example_world =
          Done () (out_T Crushed
            ''Successfully purged minikube directory located at - [{{.minikubeDirectory}}]''
            [(''minikubeDirectory'', VPath (MiniPath env_purge_forced))] world_purged)
      \<and> trace world_purged = trace world_after_two @ [EvRemoveAll (MiniPath env_purge_forced)]
      \<and> (\<forall>q. prefix (MiniPath env_purge_forced) q \<longrightarrow> fs world_purged q = None)"
    using e(2) by (simp add: loop_example purge_example evs)
  then have g: "fs world_purged [''home'', ''.minikube'', ''.mount-process''] = None"
    "fs world_purged [''home'', ''.minikube''] = None"
    using pre by (simp_all add: root)
  show ?thesis
    using a b c d1 d2 k t0 g by (intro conjI) simp_all
qed

text \<open>
  C9 as stated fails: purge is requested and the guard is not taken, but the deletion of
  the metadata of the only profile reports that it does not exist; the process ends with
  status 0, the configuration root is still there and its removal was never attempted.
\<close>

theorem purge_skipped_when_teardown_exits:
  "query (ListProfiles env_purge_profile_gone) example_world = (one_profile, None)
   \<and> purge_flag env_purge_profile_gone
   \<and> \<not> guard env_purge_profile_gone one_profile None
   \<and> exit_status (runDelete env_purge_profile_gone [] example_world) = Some 0
   \<and> fs (world_of (runDelete env_purge_profile_gone [] example_world)) [''home'', ''.minikube'']
       = Some Dir
   \<and> EvRemoveAll [''home'', ''.minikube'']
       \<notin> set (trace (world_of (runDelete env_purge_profile_gone [] example_world)))"
  by (simp add: env_purge_profile_gone_def one_profile_def example_env_def example_world_def
      runDelete_def guard_def purgeStep_def
      profile_defs step_defs killMountProcess_def os_defs)

subsection \<open>The none driver\<close>









end
